theory Spec2Isabelle
  imports Complex_Main "HOL-Library.Sublist"
begin

section \<open>Python values and exceptions\<close>

text \<open>
  The extractors hand the job executor untyped Python values (a page map, a job handle,
  \<open>True\<close>, \<open>None\<close>), and the content validator inspects them dynamically. The values
  are therefore modelled as a datatype; a dict is an association list in insertion order
  whose lookup takes the first match. Strings are lists of 8-bit characters.
\<close>

datatype pyval =
    PNone
  | PBool bool
  | PInt int
  | PStr string
  | PList "pyval list"
  | PDict "(pyval \<times> pyval) list"

text \<open>
  An exception is its class and its \<open>str()\<close>. \<open>Derived name base\<close> is any further
  class declared as a subclass of \<open>base\<close> (for instance the HTTP library's connection
  error, a subclass of \<open>OSError\<close>). Messages of errors raised by the interpreter itself
  are abbreviated; nothing but logging reads them.
\<close>

datatype exn_class =
    Exception
  | RuntimeError
  | ValueError
  | AttributeError
  | KeyError
  | TypeError
  | NotImplementedError
  | OSError
  | ConnectionError
  | FileNotFoundError
  | DatabaseError
  | OperationalError
  | PendingRollbackError
  | Psycopg2DatabaseError
  | Derived string exn_class

datatype exn = Exn exn_class string

text \<open>The class itself followed by its base classes, for \<open>isinstance\<close>.\<close>

fun class_bases :: "exn_class \<Rightarrow> exn_class list" where
  "class_bases (Derived n b) = Derived n b # class_bases b"
| "class_bases ConnectionError = [ConnectionError, OSError]"
| "class_bases FileNotFoundError = [FileNotFoundError, OSError]"
| "class_bases OperationalError = [OperationalError, DatabaseError]"
| "class_bases c = [c]"

fun isinstance :: "exn \<Rightarrow> exn_class list \<Rightarrow> bool" where
  "isinstance (Exn c m) cs = (filter (\<lambda>b. b \<in> set cs) (class_bases c) \<noteq> [])"

text \<open>Python truthiness, as used by \<open>not pages\<close>, \<open>body or {}\<close> and \<open>a or b\<close>.\<close>

fun truthy :: "pyval \<Rightarrow> bool" where
  "truthy PNone = False"
| "truthy (PBool b) = b"
| "truthy (PInt i) = (i \<noteq> 0)"
| "truthy (PStr s) = (s \<noteq> [])"
| "truthy (PList xs) = (xs \<noteq> [])"
| "truthy (PDict d) = (d \<noteq> [])"

definition py_or :: "pyval \<Rightarrow> pyval \<Rightarrow> pyval" where
  "py_or a b = (if truthy a then a else b)"

text \<open>\<open>x.get(k, default)\<close>: only a dict has the method; anything else raises AttributeError.\<close>

fun dict_get :: "pyval \<Rightarrow> pyval \<Rightarrow> pyval \<Rightarrow> exn + pyval" where
  "dict_get (PDict d) k dflt = Inr (case map_of d k of None \<Rightarrow> dflt | Some v \<Rightarrow> v)"
| "dict_get _ k dflt = Inl (Exn AttributeError ''no such attribute'')"

text \<open>\<open>x[k]\<close> on a page body: KeyError on a dict without the key, TypeError on a non-dict.\<close>

fun subscript :: "pyval \<Rightarrow> pyval \<Rightarrow> exn + pyval" where
  "subscript (PDict d) k =
     (case map_of d k of None \<Rightarrow> Inl (Exn KeyError ''content'') | Some v \<Rightarrow> Inr v)"
| "subscript _ k = Inl (Exn TypeError ''object is not subscriptable'')"

text \<open>\<open>str.isspace\<close> on the code points below 256, and \<open>str.strip()\<close>.\<close>

definition is_space :: "char \<Rightarrow> bool" where
  "is_space c = (c \<in> set [CHR 0x09, CHR 0x0A, CHR 0x0B, CHR 0x0C, CHR 0x0D,
                           CHR 0x1C, CHR 0x1D, CHR 0x1E, CHR 0x1F, CHR 0x20,
                           CHR 0x85, CHR 0xA0])"

definition strip :: "string \<Rightarrow> string" where
  "strip s = rev (dropWhile is_space (rev (dropWhile is_space s)))"

fun str_strip :: "pyval \<Rightarrow> exn + pyval" where
  "str_strip (PStr s) = Inr (PStr (strip s))"
| "str_strip _ = Inl (Exn AttributeError ''no such attribute'')"

section \<open>The content validator\<close>

text \<open>
  \<open>_has_meaningful_content\<close> of \<open>tasks.py\<close>. \<open>page_text\<close> is the body of its loop up to
  \<open>.strip()\<close>: \<open>data = (body or {}).get("content", {})\<close>, then the first truthy of
  \<open>data.get("COMBINED")\<close>, \<open>data.get("TEXT")\<close>, \<open>data.get("LATEX")\<close>, else \<open>""\<close>.
\<close>

definition page_text :: "pyval \<Rightarrow> exn + pyval" where
  "page_text body =
     (case dict_get (py_or body (PDict [])) (PStr ''content'') (PDict []) of
        Inl e \<Rightarrow> Inl e
      | Inr data \<Rightarrow>
         (case dict_get data (PStr ''COMBINED'') PNone of
            Inl e \<Rightarrow> Inl e
          | Inr combined \<Rightarrow>
             (case dict_get data (PStr ''TEXT'') PNone of
                Inl e \<Rightarrow> Inl e
              | Inr text \<Rightarrow>
                 (case dict_get data (PStr ''LATEX'') PNone of
                    Inl e \<Rightarrow> Inl e
                  | Inr latex \<Rightarrow>
                     str_strip (py_or combined (py_or text (py_or latex (PStr [] ))))))))"

text \<open>The \<open>for _p, body in pages.items()\<close> loop: the first page with a truthy text wins.\<close>

fun has_meaningful_loop :: "(pyval \<times> pyval) list \<Rightarrow> exn + bool" where
  "has_meaningful_loop [] = Inr False"
| "has_meaningful_loop ((p, body) # rest) =
     (case page_text body of
        Inl e \<Rightarrow> Inl e
      | Inr text \<Rightarrow> if truthy text then Inr True else has_meaningful_loop rest)"

text \<open>The body of the \<open>try\<close>: \<open>.items()\<close> exists on a dict only.\<close>

definition has_meaningful_try :: "pyval \<Rightarrow> exn + bool" where
  "has_meaningful_try pages =
     (if \<not> truthy pages then Inr False
      else case pages of
             PDict d \<Rightarrow> has_meaningful_loop d
           | _ \<Rightarrow> Inl (Exn AttributeError ''no such attribute''))"

text \<open>The whole function: \<open>except Exception: return False\<close>.\<close>

definition has_meaningful_content :: "pyval \<Rightarrow> exn + bool" where
  "has_meaningful_content pages =
     (case has_meaningful_try pages of Inl e \<Rightarrow> Inr False | Inr b \<Rightarrow> Inr b)"

section \<open>The extractor registry\<close>

text \<open>
  \<open>factory.py\<close>. A reader instance is identified by its class; the three OpenAI entries
  of \<open>READER_MAP\<close> are lambdas binding the model name. \<open>LlamaParseExtractor\<close> is
  registered, but its module is not part of the sources at hand.
\<close>

datatype reader =
    PyMuPDFExtractor
  | PDFPlumberExtractor
  | PyPDF2Extractor
  | TesseractExtractor
  | TextractExtractor
  | MarkItDownExtractor
  | LlamaParseExtractor
  | MathpixExtractor
  | OpenAIVisionExtractor string

text \<open>The table, each entry with the instance its constructor builds when it returns.\<close>

definition READER_MAP :: "(string \<times> reader) list" where
  "READER_MAP =
     [(''PyMuPDF'', PyMuPDFExtractor),
      (''PDFPlumber'', PDFPlumberExtractor),
      (''PyPDF2'', PyPDF2Extractor),
      (''Tesseract'', TesseractExtractor),
      (''Textract'', TextractExtractor),
      (''MarkItDown'', MarkItDownExtractor),
      (''LlamaParse'', LlamaParseExtractor),
      (''Mathpix'', MathpixExtractor),
      (''gpt-4o-mini'', OpenAIVisionExtractor ''gpt-4o-mini''),
      (''gpt-4o'', OpenAIVisionExtractor ''gpt-4o''),
      (''gpt-4-turbo'', OpenAIVisionExtractor ''gpt-4-turbo'')]"

text \<open>
  Calling a constructor. \<open>OpenAIVisionExtractor.__init__\<close> creates the client,
  \<open>openai.OpenAI(api_key=OPENAI_API_KEY)\<close>, which raises when no key is configured; what
  the constructor of \<open>LlamaParseExtractor\<close> does is not known. The outcome of both is
  given from outside. The other constructors only assign attributes and return.
\<close>

record init_outcomes =
  openai_client :: "exn option"
  llamaparse_init :: "exn option"

definition construct :: "init_outcomes \<Rightarrow> reader \<Rightarrow> exn + reader" where
  "construct I r =
     (case r of
        OpenAIVisionExtractor model_name \<Rightarrow>
          (case openai_client I of None \<Rightarrow> Inr r | Some e \<Rightarrow> Inl e)
      | LlamaParseExtractor \<Rightarrow>
          (case llamaparse_init I of None \<Rightarrow> Inr r | Some e \<Rightarrow> Inl e)
      | _ \<Rightarrow> Inr r)"

text \<open>\<open>get_reader\<close>: the membership test, then \<open>READER_MAP[extractor_type]()\<close>.\<close>

definition get_reader :: "init_outcomes \<Rightarrow> string \<Rightarrow> exn + reader" where
  "get_reader I extractor_type =
     (case map_of READER_MAP extractor_type of
        None \<Rightarrow> Inl (Exn ValueError (''Unknown extractor type: '' @ extractor_type))
      | Some r \<Rightarrow> construct I r)"

section \<open>The extractor interface and three synchronous extractors\<close>

text \<open>
  \<open>interface.py\<close>: the four methods the job executor calls. The only mutable attribute
  of the extractors is \<open>_last_result\<close>, so a method takes its current value, and
  \<open>read\<close> returns the new one beside its outcome. \<open>get_status\<close> also takes the number
  of earlier status calls, since a remote job changes state between two calls.
\<close>

record reader_ops =
  read :: "pyval \<Rightarrow> string \<Rightarrow> (exn + pyval) \<times> pyval"
  supports_webhook :: bool
  get_status :: "pyval \<Rightarrow> pyval \<Rightarrow> nat \<Rightarrow> exn + string"
  get_result :: "pyval \<Rightarrow> pyval \<Rightarrow> exn + pyval"

text \<open>
  What the PDF library gives for a file: opening it raises, or it has a list of pages,
  and \<open>extract_text\<close> on a page raises or returns a text or nothing.
\<close>

type_synonym pdf_file = "exn + (exn + string option) list"

definition exn_str :: "exn \<Rightarrow> string" where
  "exn_str e = (case e of Exn c m \<Rightarrow> m)"

definition error_page :: "pyval \<Rightarrow> pyval" where
  "error_page metadata =
     PDict [(PInt 1, PDict [(PStr ''content'', PDict [(PStr ''TEXT'', PStr [])]),
                            (PStr ''metadata'', metadata)])]"

text \<open>
  The loop of \<open>PyPDF2Extractor.read\<close>, with \<open>page_num\<close> counted from 0 and the entries
  collected so far; an exception leaves the loop.
\<close>

fun pypdf2_pages :: "nat \<Rightarrow> (exn + string option) list \<Rightarrow> (pyval \<times> pyval) list
    \<Rightarrow> exn + (pyval \<times> pyval) list" where
  "pypdf2_pages page_num [] acc = Inr acc"
| "pypdf2_pages page_num (Inl e # rest) acc = Inl e"
| "pypdf2_pages page_num (Inr t # rest) acc =
     pypdf2_pages (Suc page_num) rest
       (acc @ [(PInt (int page_num + 1),
                PDict [(PStr ''content'',
                          PDict [(PStr ''TEXT'', PStr (case t of None \<Rightarrow> [] | Some s \<Rightarrow> s))]),
                       (PStr ''metadata'',
                          PDict [(PStr ''extractor'', PStr ''PyPDF2''),
                                 (PStr ''page_number'', PInt (int page_num + 1))])])])"

definition PyPDF2Extractor_page_contents :: "pdf_file \<Rightarrow> pyval" where
  "PyPDF2Extractor_page_contents pdf =
     (case pdf of
        Inl e \<Rightarrow> error_page (PDict [(PStr ''error'', PStr (exn_str e))])
      | Inr pages \<Rightarrow>
         (case pypdf2_pages 0 pages [] of
            Inl e \<Rightarrow> error_page (PDict [(PStr ''error'', PStr (exn_str e))])
          | Inr d \<Rightarrow> PDict d))"

text \<open>\<open>PyPDF2Extractor.read\<close> stores the page map in \<open>_last_result\<close> and returns \<open>True\<close>.\<close>

definition PyPDF2Extractor_read :: "pdf_file \<Rightarrow> pyval \<Rightarrow> (exn + pyval) \<times> pyval" where
  "PyPDF2Extractor_read pdf last_result =
     (Inr (PBool True), PyPDF2Extractor_page_contents pdf)"

definition PyPDF2Extractor_ops :: "(string \<Rightarrow> pdf_file) \<Rightarrow> reader_ops" where
  "PyPDF2Extractor_ops open_pdf =
     \<lparr> read = (\<lambda>last_result file_path. PyPDF2Extractor_read (open_pdf file_path) last_result),
       supports_webhook = False,
       get_status = (\<lambda>last_result job_id k. Inr ''succeeded''),
       get_result = (\<lambda>last_result job_id. Inr last_result) \<rparr>"

text \<open>
  \<open>PyMuPDFExtractor.read\<close>: no \<open>try\<close>; \<open>fitz.open\<close> or \<open>get_text\<close> raising leaves
  \<open>_last_result\<close> as it was. It also returns \<open>True\<close>.
\<close>

fun pymupdf_pages :: "nat \<Rightarrow> (exn + string option) list \<Rightarrow> (pyval \<times> pyval) list
    \<Rightarrow> exn + (pyval \<times> pyval) list" where
  "pymupdf_pages page_num [] acc = Inr acc"
| "pymupdf_pages page_num (Inl e # rest) acc = Inl e"
| "pymupdf_pages page_num (Inr t # rest) acc =
     pymupdf_pages (Suc page_num) rest
       (acc @ [(PInt (int page_num + 1),
                PDict [(PStr ''content'',
                          PDict [(PStr ''TEXT'', PStr (case t of None \<Rightarrow> [] | Some s \<Rightarrow> s))])])])"

definition PyMuPDFExtractor_read :: "pdf_file \<Rightarrow> pyval \<Rightarrow> (exn + pyval) \<times> pyval" where
  "PyMuPDFExtractor_read pdf last_result =
     (case pdf of
        Inl e \<Rightarrow> (Inl e, last_result)
      | Inr pages \<Rightarrow>
         (case pymupdf_pages 0 pages [] of
            Inl e \<Rightarrow> (Inl e, last_result)
          | Inr d \<Rightarrow> (Inr (PBool True), PDict d)))"

definition PyMuPDFExtractor_ops :: "(string \<Rightarrow> pdf_file) \<Rightarrow> reader_ops" where
  "PyMuPDFExtractor_ops open_pdf =
     \<lparr> read = (\<lambda>last_result file_path. PyMuPDFExtractor_read (open_pdf file_path) last_result),
       supports_webhook = False,
       get_status = (\<lambda>last_result job_id k. Inr ''succeeded''),
       get_result = (\<lambda>last_result job_id. Inr last_result) \<rparr>"

text \<open>
  \<open>TesseractExtractor.read\<close>: the OCR text of every page image, stripped; any exception
  is raised again. It returns the page map itself.
\<close>

fun tesseract_pages :: "nat \<Rightarrow> string list \<Rightarrow> (pyval \<times> pyval) list" where
  "tesseract_pages i [] = []"
| "tesseract_pages i (text # rest) =
     (PInt (int i),
      PDict [(PStr ''content'', PDict [(PStr ''TEXT'', PStr (strip text))]),
             (PStr ''metadata'',
                PDict [(PStr ''extractor'', PStr ''Tesseract''),
                       (PStr ''page_number'', PInt (int i))])])
     # tesseract_pages (Suc i) rest"

definition TesseractExtractor_read :: "exn + string list \<Rightarrow> pyval \<Rightarrow> (exn + pyval) \<times> pyval" where
  "TesseractExtractor_read ocr last_result =
     (case ocr of
        Inl e \<Rightarrow> (Inl e, last_result)
      | Inr texts \<Rightarrow>
         (Inr (PDict (tesseract_pages 1 texts)), PDict (tesseract_pages 1 texts)))"

definition TesseractExtractor_ops :: "(string \<Rightarrow> exn + string list) \<Rightarrow> reader_ops" where
  "TesseractExtractor_ops ocr =
     \<lparr> read = (\<lambda>last_result file_path. TesseractExtractor_read (ocr file_path) last_result),
       supports_webhook = False,
       get_status = (\<lambda>last_result job_id k. Inr ''succeeded''),
       get_result = (\<lambda>last_result job_id. Inr last_result) \<rparr>"

section \<open>Job records, the shared store and the environment of one invocation\<close>

datatype ExtractionStatus = NOT_STARTED | PROCESSING | SUCCESS | FAILURE

text \<open>
  The columns of \<open>DocumentExtractionJob\<close> the executor writes, and \<open>DocumentPageContent\<close>
  (its attribute \<open>metadata_\<close> is the field \<open>metadata_col\<close>).
  Times are microseconds. The cost is a float in the source; a float is held as the
  rational number it is equal to, and no operation on floats is modelled.
\<close>

record job_row =
  status :: ExtractionStatus
  start_time :: "int option"
  end_time :: "int option"
  latency_ms :: "int option"
  cost :: "rat option"

record page_row =
  uuid :: string
  extraction_job_uuid :: string
  page_number :: pyval
  content :: pyval
  metadata_col :: pyval

text \<open>
  The calls made to the reader and to the file coordinator, kept as a trace so that
  properties such as "the extractor is not invoked" can be stated.
\<close>

datatype call =
    CallDownload
  | CallRead string
  | CallGetStatus
  | CallSleep nat
  | CallGetResult
  | CallMarkTaskComplete
  | CallMarkTaskFailed

text \<open>
  The state shared between invocations: the job's own row (the only row the executor's
  \<open>update\<close> statements select), the committed page rows, the rows added to the session
  and not yet committed, the Redis counters with their expiry, and two histories: the
  committed status writes and the calls.
\<close>

record world =
  job :: job_row
  page_rows :: "page_row list"
  pending_rows :: "page_row list"
  redis :: "string \<Rightarrow> int option"
  redis_ttl :: "string \<Rightarrow> nat option"
  status_log :: "ExtractionStatus list"
  calls :: "call list"

text \<open>\<open>src/constants.py\<close> is not part of the sources at hand: its values are parameters.\<close>

record retry_config =
  countdown :: nat
  max_retries :: nat

record constants =
  EXTRACTOR_RETRY_CONFIG :: "(string \<times> retry_config) list"
  DEFAULT_RETRY_CONFIG :: retry_config
  CIRCUIT_BREAKER_THRESHOLD :: int
  CIRCUIT_BREAKER_TIMEOUT :: nat

text \<open>The arguments of the task: the job identity.\<close>

record request =
  job_uuid :: string
  document_uuid :: string
  file_path :: string
  extractor_type :: string

text \<open>
  What the collaborators answer during one invocation: the three readings of the clock
  (on entry, before the SUCCESS update, in the failure path), \<open>self.request.retries\<close>,
  whether each of the three status updates commits or raises, the document lookup, the
  file coordinator's download, \<open>os.path.exists\<close>, the outcome of the constructors, the
  behaviour of the resolved reader, the identifiers \<open>uuid4\<close> hands out, and whether
  \<open>reset_circuit_breaker\<close> and \<open>mark_task_complete\<close>, which run inside the \<open>try\<close>
  block after the SUCCESS commit, return or raise. In the \<open>except\<close> block the Redis
  commands and \<open>mark_task_failed\<close> are taken to return.

  Two computations on floats are not modelled and are given from outside as well:
  \<open>elapsed_ms t0 t1\<close> is the value of \<open>int((t1 - t0).total_seconds() * 1000)\<close>, and
  \<open>round4_product b n\<close> is the float \<open>round(b * n, 4)\<close> evaluates to when \<open>b\<close> is
  the float written as the decimal literal \<open>b\<close>.
\<close>

record env =
  now_start :: int
  now_end :: int
  now_failed :: int
  elapsed_ms :: "int \<Rightarrow> int \<Rightarrow> int"
  round4_product :: "rat \<Rightarrow> int \<Rightarrow> rat"
  request_retries :: nat
  db_processing :: "exn option"
  db_success :: "exn option"
  db_failure :: "exn option"
  document_found :: bool
  download :: "exn + string"
  path_exists :: bool
  init :: init_outcomes
  behaviour :: "reader \<Rightarrow> reader_ops"
  uuid4 :: "nat \<Rightarrow> string"
  reset_outcome :: "exn option"
  complete_outcome :: "exn option"

section \<open>Cost, retry configuration and error classification\<close>

text \<open>The rates of \<open>cost_per_page\<close>, as the decimal literals of the source.\<close>

definition cost_per_page :: "(string \<times> rat) list" where
  "cost_per_page =
     [(''PyPDF'', 0),
      (''PyMuPDF'', 0),
      (''PDFPlumber'', 0),
      (''Camelot'', 0),
      (''Textract'', 15 / 10000),
      (''Tesseract'', 0),
      (''gpt-4o-mini'', 5 / 1000),
      (''gpt-4o'', 10 / 1000),
      (''gpt-4-turbo'', 15 / 1000)]"

text \<open>
  \<open>calculate_extraction_cost\<close>: the rate of the extractor, 0.001 when the table has no
  entry for it, then \<open>round(base_cost * page_count, 4)\<close> on floats.
\<close>

definition calculate_extraction_cost :: "env \<Rightarrow> string \<Rightarrow> int \<Rightarrow> rat" where
  "calculate_extraction_cost E extractor page_count =
     (let base_cost = (case map_of cost_per_page extractor of None \<Rightarrow> 1 / 1000 | Some r \<Rightarrow> r)
      in round4_product E base_cost page_count)"

definition get_retry_config :: "constants \<Rightarrow> string \<Rightarrow> retry_config" where
  "get_retry_config C extractor =
     (case map_of (EXTRACTOR_RETRY_CONFIG C) extractor of
        None \<Rightarrow> DEFAULT_RETRY_CONFIG C
      | Some cfg \<Rightarrow> cfg)"

definition is_infrastructure_error :: "exn \<Rightarrow> bool" where
  "is_infrastructure_error e =
     isinstance e [DatabaseError, OperationalError, PendingRollbackError,
                   Psycopg2DatabaseError, ConnectionError, FileNotFoundError, OSError]"

section \<open>The circuit breaker\<close>

definition circuit_key :: "string \<Rightarrow> string" where
  "circuit_key extractor = ''circuit_breaker:'' @ extractor"

definition check_circuit_breaker :: "constants \<Rightarrow> world \<Rightarrow> string \<Rightarrow> bool" where
  "check_circuit_breaker C w extractor =
     (case redis w (circuit_key extractor) of
        None \<Rightarrow> False
      | Some failure_count \<Rightarrow> CIRCUIT_BREAKER_THRESHOLD C \<le> failure_count)"

definition record_extractor_failure :: "constants \<Rightarrow> string \<Rightarrow> world \<Rightarrow> world" where
  "record_extractor_failure C extractor w =
     w\<lparr> redis := (redis w)(circuit_key extractor \<mapsto>
                     (case redis w (circuit_key extractor) of None \<Rightarrow> 1 | Some n \<Rightarrow> n + 1)),
        redis_ttl := (redis_ttl w)(circuit_key extractor \<mapsto> CIRCUIT_BREAKER_TIMEOUT C) \<rparr>"

definition reset_circuit_breaker :: "string \<Rightarrow> world \<Rightarrow> world" where
  "reset_circuit_breaker extractor w =
     w\<lparr> redis := (redis w)(circuit_key extractor := None),
        redis_ttl := (redis_ttl w)(circuit_key extractor := None) \<rparr>"

section \<open>The job executor\<close>

text \<open>\<open>str()\<close> of a job handle, for the message of the "Extraction failed" error.\<close>

fun str_nat :: "nat \<Rightarrow> string" where
  "str_nat n =
     (if n < 10 then [''0123456789'' ! n] else str_nat (n div 10) @ [''0123456789'' ! (n mod 10)])"

definition py_str :: "pyval \<Rightarrow> string" where
  "py_str v =
     (case v of
        PNone \<Rightarrow> ''None''
      | PBool b \<Rightarrow> (if b then ''True'' else ''False'')
      | PInt i \<Rightarrow> (if i < 0 then ''-'' @ str_nat (nat (- i)) else str_nat (nat i))
      | PStr s \<Rightarrow> s
      | PList xs \<Rightarrow> ''[...]''
      | PDict d \<Rightarrow> ''{...}'')"

fun py_len :: "pyval \<Rightarrow> exn + int" where
  "py_len (PStr s) = Inr (int (length s))"
| "py_len (PList xs) = Inr (int (length xs))"
| "py_len (PDict d) = Inr (int (length d))"
| "py_len _ = Inl (Exn TypeError ''object has no len()'')"

text \<open>
  The polling loop: \<open>status_at k\<close> answers the status call made after \<open>k\<close> sleeps. The loop
  ends on \<open>succeeded\<close>, on \<open>failed\<close> or on an exception, and returns the number of sleeps
  beside the answer; a backend that never reaches a final status keeps it running, which
  is the value \<open>None\<close>.
\<close>

partial_function (option) poll_status ::
    "(nat \<Rightarrow> exn + string) \<Rightarrow> nat \<Rightarrow> ((exn + string) \<times> nat) option" where
  "poll_status status_at k =
     (case status_at k of
        Inl e \<Rightarrow> Some (Inl e, k)
      | Inr st \<Rightarrow>
          if st \<in> set [''succeeded'', ''failed''] then Some (Inr st, k)
          else poll_status status_at (Suc k))"

declare poll_status.simps [code]

definition poll_calls :: "nat \<Rightarrow> call list" where
  "poll_calls k = CallGetStatus # concat (replicate k [CallSleep 5, CallGetStatus])"

definition log_calls :: "call list \<Rightarrow> world \<Rightarrow> world" where
  "log_calls cs w = w\<lparr> calls := calls w @ cs \<rparr>"

text \<open>Lines 183 to 201: the document lookup and the choice of the local file.\<close>

definition resolve_file :: "env \<Rightarrow> request \<Rightarrow> world \<Rightarrow> (exn + string) \<times> world" where
  "resolve_file E req w =
     (if \<not> document_found E
      then (Inl (Exn RuntimeError (''Document '' @ document_uuid req @ '' not found'')), w)
      else if take (length ''projects/'') (file_path req) = ''projects/''
      then (download E, log_calls [CallDownload] w)
      else if path_exists E then (Inr (file_path req), w)
      else (Inl (Exn RuntimeError (''File not found: '' @ file_path req)), w))"

text \<open>
  Lines 205 to 225: \<open>read\<close>, then the webhook branch (\<open>page_contents = None\<close>), the
  dict branch, or polling followed by \<open>get_result\<close>. A new instance has
  \<open>_last_result = None\<close>.
\<close>

definition run_extraction ::
    "reader_ops \<Rightarrow> string \<Rightarrow> world \<Rightarrow> ((exn + pyval) \<times> world) option" where
  "run_extraction ops local_file_path w =
     (case read ops PNone local_file_path of
        (Inl e, last_result) \<Rightarrow> Some (Inl e, log_calls [CallRead local_file_path] w)
      | (Inr result_or_job_id, last_result) \<Rightarrow>
          let w1 = log_calls [CallRead local_file_path] w in
          if supports_webhook ops then Some (Inr PNone, w1)
          else
            (case result_or_job_id of
               PDict d \<Rightarrow> Some (Inr (PDict d), w1)
             | job_id \<Rightarrow>
                (case poll_status (get_status ops last_result job_id) 0 of
                   None \<Rightarrow> None
                 | Some (Inl e, k) \<Rightarrow> Some (Inl e, log_calls (poll_calls k) w1)
                 | Some (Inr st, k) \<Rightarrow>
                     if st = ''failed''
                     then Some (Inl (Exn RuntimeError
                                  (''Extraction failed for job '' @ py_str job_id)),
                                log_calls (poll_calls k) w1)
                     else Some (get_result ops last_result job_id,
                                log_calls (poll_calls k @ [CallGetResult]) w1))))"

text \<open>
  The constructor of \<open>DocumentPageContent\<close> with the column default of \<open>models.py\<close>,
  \<open>metadata_ = Column(JSON, default=dict)\<close>: a row built without a \<open>metadata_\<close>
  argument is inserted with the empty dict.
\<close>

definition DocumentPageContent ::
    "string \<Rightarrow> string \<Rightarrow> pyval \<Rightarrow> pyval \<Rightarrow> pyval option \<Rightarrow> page_row" where
  "DocumentPageContent new_id jid page_num c md =
     \<lparr> uuid = new_id, extraction_job_uuid = jid, page_number = page_num, content = c,
       metadata_col = (case md of None \<Rightarrow> PDict [] | Some m \<Rightarrow> m) \<rparr>"

text \<open>
  Lines 257 to 264: one row per page, built from the page number and
  \<open>content["content"]\<close>; no \<open>metadata_\<close> argument is passed.
\<close>

fun add_pages :: "(nat \<Rightarrow> string) \<Rightarrow> string \<Rightarrow> (pyval \<times> pyval) list \<Rightarrow> page_row list
    \<Rightarrow> exn option \<times> page_row list" where
  "add_pages new_uuid jid [] pending = (None, pending)"
| "add_pages new_uuid jid ((page_num, body) # rest) pending =
     (case subscript body (PStr ''content'') of
        Inl e \<Rightarrow> (Some e, pending)
      | Inr c \<Rightarrow>
          add_pages new_uuid jid rest
            (pending @ [DocumentPageContent (new_uuid (length pending)) jid page_num c None]))"

definition save_pages :: "env \<Rightarrow> request \<Rightarrow> pyval \<Rightarrow> world \<Rightarrow> (exn + unit) \<times> world" where
  "save_pages E req page_contents w =
     (if truthy page_contents
      then (case page_contents of
              PDict d \<Rightarrow>
                (case add_pages (uuid4 E) (job_uuid req) d (pending_rows w) of
                   (None, rows) \<Rightarrow> (Inr (), w\<lparr> pending_rows := rows \<rparr>)
                 | (Some e, rows) \<Rightarrow> (Inl e, w\<lparr> pending_rows := rows \<rparr>))
            | _ \<Rightarrow> (Inl (Exn AttributeError ''no such attribute''), w))
      else (Inr (), w))"

text \<open>
  Lines 266 to 289: the SUCCESS update commits the pending page rows with it. Then, still
  inside the \<open>try\<close> block, the breaker is reset and the file coordinator is told; an
  exception of either reaches the \<open>except\<close> block with SUCCESS and the rows committed.
\<close>

definition finalize :: "env \<Rightarrow> request \<Rightarrow> pyval \<Rightarrow> world \<Rightarrow> (exn + unit) \<times> world" where
  "finalize E req page_contents w =
     (case (if truthy page_contents then py_len page_contents else Inr 0) of
        Inl e \<Rightarrow> (Inl e, w)
      | Inr page_count \<Rightarrow>
         (case db_success E of
            Some e \<Rightarrow> (Inl e, w)
          | None \<Rightarrow>
              let w1 = w\<lparr> job := (job w)\<lparr> status := SUCCESS,
                                         end_time := Some (now_end E),
                                         latency_ms :=
                                           Some (elapsed_ms E (now_start E) (now_end E)),
                                         cost := Some (calculate_extraction_cost E
                                                         (extractor_type req) page_count) \<rparr>,
                          page_rows := page_rows w @ pending_rows w,
                          pending_rows := [],
                          status_log := status_log w @ [SUCCESS] \<rparr>
              in (case reset_outcome E of
                    Some e \<Rightarrow> (Inl e, w1)
                  | None \<Rightarrow>
                      let w2 = log_calls [CallMarkTaskComplete]
                                 (reset_circuit_breaker (extractor_type req) w1)
                      in (case complete_outcome E of
                            Some e \<Rightarrow> (Inl e, w2)
                          | None \<Rightarrow> (Inr (), w2)))))"

text \<open>Lines 246 to 289: validation, persistence, the SUCCESS update.\<close>

definition validate_and_save :: "env \<Rightarrow> request \<Rightarrow> pyval \<Rightarrow> world \<Rightarrow> (exn + unit) \<times> world" where
  "validate_and_save E req page_contents w =
     (case has_meaningful_content page_contents of
        Inl e \<Rightarrow> (Inl e, w)
      | Inr ok \<Rightarrow>
          if \<not> ok
          then (Inl (Exn RuntimeError
                       (''No meaningful content extracted by '' @ extractor_type req)), w)
          else (case save_pages E req page_contents w of
                  (Inl e, w1) \<Rightarrow> (Inl e, w1)
                | (Inr u, w1) \<Rightarrow> finalize E req page_contents w1))"

text \<open>Lines 172 to 177: the PROCESSING update, committed.\<close>

definition mark_processing :: "env \<Rightarrow> world \<Rightarrow> world" where
  "mark_processing E w =
     w\<lparr> job := (job w)\<lparr> status := PROCESSING, start_time := Some (now_start E) \<rparr>,
        status_log := status_log w @ [PROCESSING] \<rparr>"

text \<open>The \<open>try\<close> block, lines 165 to 289.\<close>

definition try_block ::
    "constants \<Rightarrow> env \<Rightarrow> request \<Rightarrow> world \<Rightarrow> ((exn + unit) \<times> world) option" where
  "try_block C E req w =
     (if check_circuit_breaker C w (extractor_type req)
      then Some (Inl (Exn RuntimeError
                        (''Circuit breaker is OPEN for '' @ extractor_type req
                          @ ''. Too many recent failures. Try again later.'')), w)
      else
        (case db_processing E of
           Some e \<Rightarrow> Some (Inl e, w)
         | None \<Rightarrow>
             (case resolve_file E req (mark_processing E w) of
                (Inl e, w2) \<Rightarrow> Some (Inl e, w2)
              | (Inr local_file_path, w2) \<Rightarrow>
                  (case get_reader (init E) (extractor_type req) of
                     Inl e \<Rightarrow> Some (Inl e, w2)
                   | Inr r \<Rightarrow>
                       (case run_extraction (behaviour E r) local_file_path w2 of
                          None \<Rightarrow> None
                        | Some (Inl e, w3) \<Rightarrow> Some (Inl e, w3)
                        | Some (Inr page_contents, w3) \<Rightarrow>
                            Some (validate_and_save E req page_contents w3))))))"

text \<open>
  How an invocation ends: it returns, it raises, or it raises Celery's \<open>Retry\<close> after the
  task has been sent again with the same arguments, a countdown and the next retry count.
\<close>

datatype outcome =
    Finished
  | Propagated exn
  | Retry exn request nat nat

text \<open>
  \<open>self.retry(exc=e, countdown=..., max_retries=...)\<close> of the Celery library: with
  \<open>retries = self.request.retries + 1\<close>, it raises \<open>exc\<close> when \<open>retries > max_retries\<close>, and
  otherwise sends the task again and raises \<open>Retry\<close>.
\<close>

definition celery_retry :: "nat \<Rightarrow> exn \<Rightarrow> request \<Rightarrow> nat \<Rightarrow> nat \<Rightarrow> outcome" where
  "celery_retry retries exc req delay limit =
     (if limit < Suc retries then Propagated exc else Retry exc req delay (Suc retries))"

text \<open>
  The \<open>except\<close> block, lines 290 to 340: roll back, try the FAILURE update (a failure of
  the update itself is logged and ignored), record the failure for the breaker, then
  either raise again or retry.
\<close>

definition failure_path ::
    "constants \<Rightarrow> env \<Rightarrow> request \<Rightarrow> exn \<Rightarrow> world \<Rightarrow> outcome \<times> world" where
  "failure_path C E req e w =
     (let w1 = w\<lparr> pending_rows := [] \<rparr>;
          w2 = (case db_failure E of
                  Some db_err \<Rightarrow> w1
                | None \<Rightarrow>
                    w1\<lparr> job := (job w1)\<lparr> status := FAILURE,
                                         end_time := Some (now_failed E),
                                         latency_ms :=
                                           Some (elapsed_ms E (now_start E) (now_failed E)),
                                         cost := Some 0 \<rparr>,
                        status_log := status_log w1 @ [FAILURE] \<rparr>);
          w3 = record_extractor_failure C (extractor_type req) w2;
          w4 = log_calls [CallMarkTaskFailed] w3
      in if is_infrastructure_error e then (Propagated e, w4)
         else (celery_retry (request_retries E) e req
                 (countdown (get_retry_config C (extractor_type req)))
                 (max_retries (get_retry_config C (extractor_type req))), w4))"

text \<open>
  The task. Every invocation opens a new session, so it starts with nothing pending; the
  \<open>finally\<close> block only removes \<open>temp_file_path\<close>, which is always \<open>None\<close>.
\<close>

definition process_document_with_extractor ::
    "constants \<Rightarrow> env \<Rightarrow> request \<Rightarrow> world \<Rightarrow> (outcome \<times> world) option" where
  "process_document_with_extractor C E req w =
     (case try_block C E req (w\<lparr> pending_rows := [] \<rparr>) of
        None \<Rightarrow> None
      | Some (Inr u, w1) \<Rightarrow> Some (Finished, w1)
      | Some (Inl e, w1) \<Rightarrow> Some (failure_path C E req e w1))"

text \<open>
  A worker running the task that \<open>self.retry\<close> has sent: the same arguments, the retry
  count of the message as \<open>self.request.retries\<close>, on the state the failed run left.
\<close>

definition deliver_retry ::
    "constants \<Rightarrow> env \<Rightarrow> (outcome \<times> world) option \<Rightarrow> (outcome \<times> world) option" where
  "deliver_retry C E r =
     (case r of
        Some (Retry e args delay k, w) \<Rightarrow>
          process_document_with_extractor C (E\<lparr> request_retries := k \<rparr>) args w
      | _ \<Rightarrow> r)"

section \<open>Normalized page maps\<close>

text \<open>
  The page maps the extractors build: a page number, a content dict from kind tag to
  text, and optional metadata. \<open>encode_pages\<close> is the Python value of such a map.
\<close>

type_synonym normalized_page = "int \<times> (string \<times> string) list \<times> pyval option"

definition encode_content :: "(string \<times> string) list \<Rightarrow> pyval" where
  "encode_content kinds = PDict (map (\<lambda>(tag, txt). (PStr tag, PStr txt)) kinds)"

definition encode_body :: "(string \<times> string) list \<Rightarrow> pyval option \<Rightarrow> pyval" where
  "encode_body kinds md =
     PDict ((PStr ''content'', encode_content kinds)
            # (case md of None \<Rightarrow> [] | Some m \<Rightarrow> [(PStr ''metadata'', m)]))"

definition encode_pages :: "normalized_page list \<Rightarrow> pyval" where
  "encode_pages ps = PDict (map (\<lambda>(n, kinds, md). (PInt n, encode_body kinds md)) ps)"

definition tag_value :: "(string \<times> string) list \<Rightarrow> string \<Rightarrow> string" where
  "tag_value kinds tag = (case map_of kinds tag of None \<Rightarrow> [] | Some txt \<Rightarrow> txt)"

text \<open>The value the validator looks at: the first non-empty of COMBINED, TEXT, LATEX.\<close>

definition first_nonempty :: "(string \<times> string) list \<Rightarrow> string" where
  "first_nonempty kinds =
     (if tag_value kinds ''COMBINED'' \<noteq> [] then tag_value kinds ''COMBINED''
      else if tag_value kinds ''TEXT'' \<noteq> [] then tag_value kinds ''TEXT''
      else tag_value kinds ''LATEX'')"

definition blank :: "string \<Rightarrow> bool" where
  "blank txt = list_all is_space txt"

definition page_is_meaningful :: "normalized_page \<Rightarrow> bool" where
  "page_is_meaningful p = (case p of (n, kinds, md) \<Rightarrow> \<not> blank (first_nonempty kinds))"

text \<open>
  The three values the validator can read on a page, and the pages on which one of them
  is non-empty but whitespace-only while another is not blank.
\<close>

definition read_values :: "(string \<times> string) list \<Rightarrow> string list" where
  "read_values kinds =
     [tag_value kinds ''COMBINED'', tag_value kinds ''TEXT'', tag_value kinds ''LATEX'']"

definition mixed_blank :: "(string \<times> string) list \<Rightarrow> bool" where
  "mixed_blank kinds =
     (list_ex (\<lambda>v. v \<noteq> [] \<and> blank v) (read_values kinds)
      \<and> list_ex (\<lambda>v. \<not> blank v) (read_values kinds))"

section \<open>Sample inputs\<close>

text \<open>
  Concrete values at which the theorems below are instantiated. The retry table and the
  breaker threshold are sample settings, and so are the two stand-ins for the float
  computations of \<open>sample_env\<close>, which no statement below looks at.
\<close>

definition sample_constants :: constants where
  "sample_constants =
     \<lparr> EXTRACTOR_RETRY_CONFIG = [(''Textract'', \<lparr> countdown = 120, max_retries = 2 \<rparr>)],
       DEFAULT_RETRY_CONFIG = \<lparr> countdown = 60, max_retries = 3 \<rparr>,
       CIRCUIT_BREAKER_THRESHOLD = 5,
       CIRCUIT_BREAKER_TIMEOUT = 300 \<rparr>"

definition fresh_world :: world where
  "fresh_world =
     \<lparr> job = \<lparr> status = NOT_STARTED, start_time = None, end_time = None,
                latency_ms = None, cost = None \<rparr>,
       page_rows = [], pending_rows = [], redis = Map.empty, redis_ttl = Map.empty,
       status_log = [], calls = [] \<rparr>"

definition open_breaker_world :: world where
  "open_breaker_world = fresh_world\<lparr> redis := [circuit_key ''PyPDF2'' \<mapsto> 5] \<rparr>"

definition sample_request :: "string \<Rightarrow> request" where
  "sample_request extractor =
     \<lparr> job_uuid = ''job-a'', document_uuid = ''doc-a'', file_path = ''/data/doc.pdf'',
       extractor_type = extractor \<rparr>"

definition hello_pdf :: pdf_file where
  "hello_pdf = Inr [Inr (Some ''Hello'')]"

text \<open>A reader that supports webhooks: \<open>read\<close> starts the remote job and returns its handle.\<close>

definition webhook_ops :: reader_ops where
  "webhook_ops =
     \<lparr> read = (\<lambda>last_result path. (Inr (PStr ''remote-1''), last_result)),
       supports_webhook = True,
       get_status = (\<lambda>last_result job_id k. Inr ''processing''),
       get_result = (\<lambda>last_result job_id. Inr PNone) \<rparr>"

definition sample_behaviour :: "reader \<Rightarrow> reader_ops" where
  "sample_behaviour r =
     (if r = LlamaParseExtractor then webhook_ops
      else if r = PyMuPDFExtractor then PyMuPDFExtractor_ops (\<lambda>path. hello_pdf)
      else if r = TesseractExtractor then TesseractExtractor_ops (\<lambda>path. Inr ['' Hello ''])
      else PyPDF2Extractor_ops (\<lambda>path. hello_pdf))"

definition sample_env :: env where
  "sample_env =
     \<lparr> now_start = 1000000, now_end = 3500000, now_failed = 2250000,
       elapsed_ms = (\<lambda>t0 t1. (t1 - t0) div 1000),
       round4_product = (\<lambda>b n. b * of_int n),
       request_retries = 0,
       db_processing = None, db_success = None, db_failure = None, document_found = True,
       download = Inr ''/shared/doc.pdf'', path_exists = True,
       init = \<lparr> openai_client = None, llamaparse_init = None \<rparr>,
       behaviour = sample_behaviour,
       uuid4 = (\<lambda>k. ''uuid-'' @ str_nat k),
       reset_outcome = None, complete_outcome = None \<rparr>"

section \<open>Properties of the content validator and of the stages of the executor\<close>

lemma strip_empty_iff: "strip s = [] \<longleftrightarrow> blank s"
proof -
  have "strip s = [] \<longleftrightarrow> dropWhile is_space (rev (dropWhile is_space s)) = []"
    by (simp add: strip_def)
  also have "\<dots> \<longleftrightarrow> (\<forall>c\<in>set (dropWhile is_space s). is_space c)"
    by (simp add: dropWhile_eq_Nil_conv)
  also have "\<dots> \<longleftrightarrow> dropWhile is_space s = []"
  proof
    assume a: "\<forall>c\<in>set (dropWhile is_space s). is_space c"
    show "dropWhile is_space s = []"
    proof (rule ccontr)
      assume ne: "dropWhile is_space s \<noteq> []"
      then have "\<not> is_space (hd (dropWhile is_space s))" by (rule hd_dropWhile)
      moreover have "hd (dropWhile is_space s) \<in> set (dropWhile is_space s)"
        using ne by simp
      ultimately show False using a by blast
    qed
  next
    assume h: "dropWhile is_space s = []"
    show "\<forall>c\<in>set (dropWhile is_space s). is_space c" unfolding h by simp
  qed
  also have "\<dots> \<longleftrightarrow> blank s"
    by (simp add: dropWhile_eq_Nil_conv blank_def list_all_iff)
  finally show ?thesis .
qed

lemma map_of_encode:
  "map_of (map (\<lambda>(tag, txt). (PStr tag, PStr txt)) kinds) (PStr t) = map_option PStr (map_of kinds t)"
  by (induction kinds) auto

lemma get_encode:
  "dict_get (encode_content kinds) (PStr t) PNone =
     Inr (if tag_value kinds t = [] \<and> map_of kinds t = None then PNone else PStr (tag_value kinds t))"
  by (auto simp: encode_content_def map_of_encode tag_value_def split: option.splits)

lemma py_or_tag:
  "py_or (if tag_value kinds t = [] \<and> map_of kinds t = None then PNone else PStr (tag_value kinds t)) x
     = (if tag_value kinds t \<noteq> [] then PStr (tag_value kinds t) else x)"
  by (simp add: py_or_def)

lemma page_text_encode:
  "page_text (encode_body kinds md) = Inr (PStr (strip (first_nonempty kinds)))"
proof -
  have b: "py_or (encode_body kinds md) (PDict []) = encode_body kinds md"
    by (simp add: py_or_def encode_body_def)
  have c: "dict_get (encode_body kinds md) (PStr ''content'') (PDict []) = Inr (encode_content kinds)"
    by (simp add: encode_body_def)
  show ?thesis
    unfolding page_text_def b c
    by (simp add: get_encode py_or_tag first_nonempty_def)
qed

lemma loop_encode:
  "has_meaningful_loop (map (\<lambda>(n, kinds, md). (PInt n, encode_body kinds md)) ps)
     = Inr (\<exists>p\<in>set ps. page_is_meaningful p)"
proof (induction ps)
  case Nil
  show ?case by simp
next
  case (Cons p ps)
  obtain n kinds md where p: "p = (n, kinds, md)" by (cases p)
  show ?case
    using Cons.IH by (simp add: p page_text_encode page_is_meaningful_def strip_empty_iff)
qed

lemma content_encode:
  "has_meaningful_content (encode_pages ps) = Inr (\<exists>p\<in>set ps. page_is_meaningful p)"
proof (cases ps)
  case Nil
  then show ?thesis
    by (simp add: has_meaningful_content_def has_meaningful_try_def encode_pages_def)
next
  case (Cons p rest)
  then have "truthy (encode_pages ps)" by (simp add: encode_pages_def)
  then show ?thesis
    by (simp add: has_meaningful_content_def has_meaningful_try_def encode_pages_def loop_encode)
qed

lemma content_total: "\<exists>b. has_meaningful_content v = Inr b"
  by (cases "has_meaningful_try v") (auto simp: has_meaningful_content_def)

lemma loop_True:
  "has_meaningful_loop d = Inr True \<Longrightarrow>
     \<exists>k body t. (k, body) \<in> set d \<and> page_text body = Inr t \<and> truthy t"
proof (induction d)
  case Nil
  then show ?case by simp
next
  case (Cons kb d)
  obtain k body where kb: "kb = (k, body)" by (cases kb)
  show ?case
  proof (cases "page_text body")
    case (Inl e)
    with Cons.prems kb show ?thesis by simp
  next
    case (Inr t)
    show ?thesis
    proof (cases "truthy t")
      case True
      with Inr kb show ?thesis by auto
    next
      case False
      with Inr kb Cons.prems have "has_meaningful_loop d = Inr True" by simp
      from Cons.IH[OF this] show ?thesis by auto
    qed
  qed
qed

lemma dict_get_Inr: "dict_get v k dflt = Inr x \<Longrightarrow> \<exists>d. v = PDict d"
  by (cases v) simp_all

lemma str_strip_Inr: "str_strip v = Inr x \<Longrightarrow> \<exists>s. v = PStr s \<and> x = PStr (strip s)"
  by (cases v) auto

lemma page_text_truthy:
  assumes "page_text body = Inr t" and "truthy t"
  shows "\<exists>b data s. body = PDict b \<and> map_of b (PStr ''content'') = Some (PDict data)
            \<and> t = PStr s \<and> s \<noteq> []"
proof -
  from assms(1) obtain data where
    d: "dict_get (py_or body (PDict [])) (PStr ''content'') (PDict []) = Inr data"
    by (auto simp: page_text_def split: sum.splits)
  from assms(1) d obtain data' where data: "data = PDict data'"
    by (auto simp: page_text_def split: sum.splits dest: dict_get_Inr)
  from assms(1) d data obtain s0 where
    s0: "t = PStr (strip s0)"
    by (auto simp: page_text_def split: sum.splits dest: str_strip_Inr)
  have ne: "data' \<noteq> []"
  proof
    assume "data' = []"
    with assms(1) d data have "t = PStr []"
      by (simp add: page_text_def py_or_def strip_def)
    with assms(2) show False by simp
  qed
  have tb: "truthy body"
  proof (rule ccontr)
    assume "\<not> truthy body"
    then have "py_or body (PDict []) = PDict []" by (simp add: py_or_def)
    with d data have "data' = []" by simp
    with ne show False by simp
  qed
  then have "py_or body (PDict []) = body" by (simp add: py_or_def)
  with d obtain b where b: "body = PDict b" by (auto dest: dict_get_Inr)
  have "map_of b (PStr ''content'') = Some (PDict data')"
  proof (cases "map_of b (PStr ''content'')")
    case None
    with d b \<open>py_or body (PDict []) = body\<close> data have "data' = []" by simp
    with ne show ?thesis by simp
  next
    case (Some v)
    with d b \<open>py_or body (PDict []) = body\<close> data show ?thesis by simp
  qed
  with b s0 assms(2) show ?thesis by auto
qed

lemma content_True:
  assumes "has_meaningful_content v = Inr True"
  shows "\<exists>d k b data s. v = PDict d \<and> (k, PDict b) \<in> set d
           \<and> map_of b (PStr ''content'') = Some (PDict data)
           \<and> page_text (PDict b) = Inr (PStr s) \<and> s \<noteq> []"
proof -
  from assms have t: "has_meaningful_try v = Inr True"
    by (auto simp: has_meaningful_content_def split: sum.splits)
  then have tr: "truthy v"
    by (auto simp: has_meaningful_try_def split: if_splits)
  with t obtain d where d: "v = PDict d" and l: "has_meaningful_loop d = Inr True"
    by (cases v) (auto simp: has_meaningful_try_def)
  from loop_True[OF l] obtain k body t where
    kb: "(k, body) \<in> set d" "page_text body = Inr t" "truthy t" by blast
  from page_text_truthy[OF kb(2,3)] kb d show ?thesis by blast
qed

lemma malformed_pages:
  "page_text PNone = Inr (PStr [])"
  "page_text (PStr s) = (if s = [] then Inr (PStr []) else Inl (Exn AttributeError ''no such attribute''))"
  "map_of b (PStr ''content'') = None \<Longrightarrow> page_text (PDict b) = Inr (PStr [])"
  by (auto simp: page_text_def py_or_def strip_def split: option.splits)

lemma blank_Nil [simp]: "blank []"
  by (simp add: blank_def)

lemma first_nonempty_unmixed:
  assumes "\<not> mixed_blank kinds"
  shows "(\<not> blank (first_nonempty kinds)) = list_ex (\<lambda>v. \<not> blank v) (read_values kinds)"
proof (cases "list_ex (\<lambda>v. \<not> blank v) (read_values kinds)")
  case False
  then have "blank (tag_value kinds ''COMBINED'')" "blank (tag_value kinds ''TEXT'')"
    "blank (tag_value kinds ''LATEX'')"
    by (simp_all add: read_values_def)
  then have "blank (first_nonempty kinds)" by (simp add: first_nonempty_def)
  with False show ?thesis by simp
next
  case True
  with assms have n: "\<not> list_ex (\<lambda>v. v \<noteq> [] \<and> blank v) (read_values kinds)"
    by (simp add: mixed_blank_def)
  then have c: "tag_value kinds ''COMBINED'' = [] \<or> \<not> blank (tag_value kinds ''COMBINED'')"
    and t: "tag_value kinds ''TEXT'' = [] \<or> \<not> blank (tag_value kinds ''TEXT'')"
    and l: "tag_value kinds ''LATEX'' = [] \<or> \<not> blank (tag_value kinds ''LATEX'')"
    by (auto simp: read_values_def)
  from True have some: "\<not> blank (tag_value kinds ''COMBINED'')
      \<or> \<not> blank (tag_value kinds ''TEXT'') \<or> \<not> blank (tag_value kinds ''LATEX'')"
    by (simp add: read_values_def)
  have "\<not> blank (first_nonempty kinds)"
  proof (cases "tag_value kinds ''COMBINED'' = []")
    case False
    with c show ?thesis by (simp add: first_nonempty_def)
  next
    case True
    note c0 = this
    show ?thesis
    proof (cases "tag_value kinds ''TEXT'' = []")
      case False
      with t c0 show ?thesis by (simp add: first_nonempty_def)
    next
      case True
      with c0 some show ?thesis by (simp add: first_nonempty_def)
    qed
  qed
  with True show ?thesis by simp
qed

lemma log_calls_fields [simp]:
  "job (log_calls cs w) = job w"
  "page_rows (log_calls cs w) = page_rows w"
  "pending_rows (log_calls cs w) = pending_rows w"
  "redis (log_calls cs w) = redis w"
  "redis_ttl (log_calls cs w) = redis_ttl w"
  "status_log (log_calls cs w) = status_log w"
  "calls (log_calls cs w) = calls w @ cs"
  by (simp_all add: log_calls_def)

lemma log_calls_log_calls: "log_calls b (log_calls a w) = log_calls (a @ b) w"
  by (simp add: log_calls_def)

lemma log_calls_Nil: "log_calls [] w = w"
  by (simp add: log_calls_def)

lemma resolve_file_frame:
  "resolve_file E req w = (r, w') \<Longrightarrow> w' = w \<or> w' = log_calls [CallDownload] w"
  by (auto simp: resolve_file_def split: if_splits)

lemma run_extraction_frame:
  "run_extraction ops p w = Some (r, w') \<Longrightarrow> \<exists>cs. w' = log_calls (CallRead p # cs) w"
  unfolding run_extraction_def
  by (auto simp: log_calls_log_calls Let_def split: prod.splits sum.splits option.splits pyval.splits if_splits)

lemma run_extraction_webhook:
  "supports_webhook ops \<Longrightarrow> run_extraction ops p w = Some (r, w') \<Longrightarrow>
     w' = log_calls [CallRead p] w \<and> (r = Inr PNone \<or> (\<exists>e. r = Inl e))"
  unfolding run_extraction_def
  by (auto simp: Let_def split: prod.splits sum.splits)

lemma add_pages_rows:
  "add_pages f j d pending = (None, rows) \<Longrightarrow>
     \<exists>new. rows = pending @ new \<and>
       list_all2 (\<lambda>page row. \<exists>c u. subscript (snd page) (PStr ''content'') = Inr c
                    \<and> row = DocumentPageContent u j (fst page) c None) d new"
proof (induction d arbitrary: pending)
  case Nil
  then show ?case by simp
next
  case (Cons kb d)
  obtain k body where kb: "kb = (k, body)" by (cases kb)
  from Cons.prems kb obtain c where c: "subscript body (PStr ''content'') = Inr c"
    by (cases "subscript body (PStr ''content'')") auto
  let ?r = "DocumentPageContent (f (length pending)) j k c None"
  from Cons.prems kb c have "add_pages f j d (pending @ [?r]) = (None, rows)" by simp
  from Cons.IH[OF this] obtain new where
    new: "rows = (pending @ [?r]) @ new" and
    all: "list_all2 (\<lambda>page row. \<exists>c u. subscript (snd page) (PStr ''content'') = Inr c
                    \<and> row = DocumentPageContent u j (fst page) c None) d new"
    by blast
  have "rows = pending @ (?r # new)" using new by simp
  moreover have "list_all2 (\<lambda>page row. \<exists>c u. subscript (snd page) (PStr ''content'') = Inr c
                    \<and> row = DocumentPageContent u j (fst page) c None) (kb # d) (?r # new)"
    using all kb c by auto
  ultimately show ?case by blast
qed

lemma add_pages_content_only:
  "map (\<lambda>page. (fst page, subscript (snd page) (PStr ''content''))) d'
     = map (\<lambda>page. (fst page, subscript (snd page) (PStr ''content''))) d
   \<Longrightarrow> add_pages f j d' pending = add_pages f j d pending"
proof (induction d arbitrary: d' pending)
  case Nil
  then show ?case by simp
next
  case (Cons kb d)
  from Cons.prems obtain kb' rest where d': "d' = kb' # rest" by (cases d') auto
  obtain k body where kb: "kb = (k, body)" by (cases kb)
  obtain k' body' where kb': "kb' = (k', body')" by (cases kb')
  from Cons.prems d' kb kb' have k: "k' = k"
    and c: "subscript body' (PStr ''content'') = subscript body (PStr ''content'')"
    and r: "map (\<lambda>page. (fst page, subscript (snd page) (PStr ''content''))) rest
            = map (\<lambda>page. (fst page, subscript (snd page) (PStr ''content''))) d"
    by simp_all
  show ?case
    unfolding d' kb kb' using k c Cons.IH[OF r]
    by (simp split: sum.splits)
qed

lemma rows_default_metadata:
  "list_all2 (\<lambda>page row. \<exists>c u. subscript (snd page) (PStr ''content'') = Inr c
                    \<and> row = DocumentPageContent u j (fst page) c None) d new
   \<Longrightarrow> list_all (\<lambda>row. metadata_col row = PDict [] \<and> extraction_job_uuid row = j) new"
  by (induction d new rule: list_all2_induct) (auto simp: DocumentPageContent_def)

lemma save_pages_frame:
  "save_pages E req pages w = (r, w') \<Longrightarrow>
     status_log w' = status_log w \<and> page_rows w' = page_rows w \<and> job w' = job w
     \<and> redis w' = redis w \<and> calls w' = calls w"
  unfolding save_pages_def
  by (auto split: if_splits pyval.splits prod.splits option.splits)

lemma save_pages_Inr:
  "save_pages E req pages w = (Inr u, w') \<Longrightarrow> truthy pages \<Longrightarrow>
     \<exists>d rows. pages = PDict d \<and> add_pages (uuid4 E) (job_uuid req) d (pending_rows w) = (None, rows)
        \<and> w' = w\<lparr> pending_rows := rows \<rparr>"
  unfolding save_pages_def
  by (auto split: if_splits pyval.splits prod.splits option.splits)


lemma meaningful_truthy: "has_meaningful_content pages = Inr True \<Longrightarrow> truthy pages"
  by (auto simp: has_meaningful_content_def has_meaningful_try_def split: sum.splits if_splits)

lemma finalize_cases:
  assumes "finalize E req pages w = (r, w')"
  shows "((\<exists>e. r = Inl e) \<and> w' = w)
       \<or> (db_success E = None
           \<and> status_log w' = status_log w @ [SUCCESS]
           \<and> page_rows w' = page_rows w @ pending_rows w \<and> pending_rows w' = []
           \<and> status (job w') = SUCCESS
           \<and> ((\<exists>e. r = Inl e) \<and> (reset_outcome E \<noteq> None \<or> complete_outcome E \<noteq> None)
               \<or> r = Inr () \<and> reset_outcome E = None \<and> complete_outcome E = None))"
  using assms unfolding finalize_def
  by (cases "if truthy pages then py_len pages else Inr 0"; cases "db_success E";
      cases "reset_outcome E"; cases "complete_outcome E")
     (auto simp: Let_def reset_circuit_breaker_def)

section \<open>The \<open>try\<close> block\<close>

lemma validate_and_save_cases:
  assumes "validate_and_save E req pages w = (r, w')"
  shows "((\<exists>e. r = Inl e)
           \<and> status_log w' = status_log w \<and> page_rows w' = page_rows w \<and> job w' = job w
           \<and> redis w' = redis w \<and> calls w' = calls w)
       \<or> (has_meaningful_content pages = Inr True \<and> db_success E = None
           \<and> status_log w' = status_log w @ [SUCCESS] \<and> status (job w') = SUCCESS
           \<and> pending_rows w' = []
           \<and> (\<exists>d rows. pages = PDict d
                 \<and> add_pages (uuid4 E) (job_uuid req) d (pending_rows w) = (None, rows)
                 \<and> page_rows w' = page_rows w @ rows)
           \<and> ((\<exists>e. r = Inl e) \<and> (reset_outcome E \<noteq> None \<or> complete_outcome E \<noteq> None)
               \<or> r = Inr () \<and> reset_outcome E = None \<and> complete_outcome E = None))"
proof (cases "has_meaningful_content pages = Inr True")
  case False
  with assms have "w' = w" "\<exists>e. r = Inl e"
    by (auto simp: validate_and_save_def split: sum.splits if_splits)
  then show ?thesis by simp
next
  case True
  obtain r1 w1 where s: "save_pages E req pages w = (r1, w1)"
    by (cases "save_pages E req pages w")
  note fr = save_pages_frame[OF s]
  show ?thesis
  proof (cases r1)
    case (Inl e')
    with assms True s have "w' = w1" "r = Inl e'" by (simp_all add: validate_and_save_def)
    with fr show ?thesis by simp
  next
    case (Inr u)
    with assms True s have f: "finalize E req pages w1 = (r, w')"
      by (simp add: validate_and_save_def)
    from s Inr have s': "save_pages E req pages w = (Inr u, w1)" by simp
    from save_pages_Inr[OF s' meaningful_truthy[OF True]] obtain d rows where
      d: "pages = PDict d"
         "add_pages (uuid4 E) (job_uuid req) d (pending_rows w) = (None, rows)"
         "w1 = w\<lparr> pending_rows := rows \<rparr>" by blast
    from finalize_cases[OF f] show ?thesis
    proof
      assume "(\<exists>e. r = Inl e) \<and> w' = w1"
      with fr show ?thesis by simp
    next
      assume c: "db_success E = None
           \<and> status_log w' = status_log w1 @ [SUCCESS]
           \<and> page_rows w' = page_rows w1 @ pending_rows w1 \<and> pending_rows w' = []
           \<and> status (job w') = SUCCESS
           \<and> ((\<exists>e. r = Inl e) \<and> (reset_outcome E \<noteq> None \<or> complete_outcome E \<noteq> None)
               \<or> r = Inr () \<and> reset_outcome E = None \<and> complete_outcome E = None)"
      have "\<exists>d rows. pages = PDict d
                 \<and> add_pages (uuid4 E) (job_uuid req) d (pending_rows w) = (None, rows)
                 \<and> page_rows w' = page_rows w @ rows"
        using c d by auto
      with c True d(3) show ?thesis by simp
    qed
  qed
qed

lemma try_block_open:
  "check_circuit_breaker C w (extractor_type req) \<Longrightarrow>
     try_block C E req w =
       Some (Inl (Exn RuntimeError (''Circuit breaker is OPEN for '' @ extractor_type req
                          @ ''. Too many recent failures. Try again later.'')), w)"
  by (simp add: try_block_def)

lemma try_block_db:
  "\<not> check_circuit_breaker C w (extractor_type req) \<Longrightarrow> db_processing E = Some e \<Longrightarrow>
     try_block C E req w = Some (Inl e, w)"
  by (simp add: try_block_def)

lemma mark_processing_fields [simp]:
  "status_log (mark_processing E w) = status_log w @ [PROCESSING]"
  "status (job (mark_processing E w)) = PROCESSING"
  "page_rows (mark_processing E w) = page_rows w"
  "pending_rows (mark_processing E w) = pending_rows w"
  "redis (mark_processing E w) = redis w"
  "calls (mark_processing E w) = calls w"
  by (simp_all add: mark_processing_def)

lemma try_block_unknown:
  assumes "\<not> check_circuit_breaker C w (extractor_type req)" and "db_processing E = None"
    and "resolve_file E req (mark_processing E w) = (Inr local, w2)"
    and "get_reader (init E) (extractor_type req) = Inl e"
  shows "try_block C E req w = Some (Inl e, w2)"
  using assms by (simp add: try_block_def)

text \<open>
  Past the breaker check and the PROCESSING update, the block either fails before
  validation, with nothing but PROCESSING written, or reaches \<open>validate_and_save\<close> with
  the page map the reader returned.
\<close>

lemma try_block_started:
  assumes "\<not> check_circuit_breaker C w (extractor_type req)" and "db_processing E = None"
    and "try_block C E req w = Some (r, w')"
  shows "((\<exists>e. r = Inl e)
           \<and> status_log w' = status_log w @ [PROCESSING] \<and> page_rows w' = page_rows w
           \<and> status (job w') = PROCESSING)
       \<or> (\<exists>local w2 rd pages w3.
             resolve_file E req (mark_processing E w) = (Inr local, w2)
           \<and> get_reader (init E) (extractor_type req) = Inr rd
           \<and> run_extraction (behaviour E rd) local w2 = Some (Inr pages, w3)
           \<and> validate_and_save E req pages w3 = (r, w')
           \<and> status_log w3 = status_log w @ [PROCESSING] \<and> page_rows w3 = page_rows w
           \<and> pending_rows w3 = pending_rows w \<and> status (job w3) = PROCESSING)"
proof -
  obtain rf w2 where rf: "resolve_file E req (mark_processing E w) = (rf, w2)"
    by (cases "resolve_file E req (mark_processing E w)")
  from resolve_file_frame[OF rf] have w2: "status_log w2 = status_log w @ [PROCESSING]"
    "page_rows w2 = page_rows w" "pending_rows w2 = pending_rows w"
    "status (job w2) = PROCESSING"
    by auto
  show ?thesis
  proof (cases rf)
    case (Inl e)
    with assms rf have "r = Inl e" "w' = w2" by (simp_all add: try_block_def)
    with w2 show ?thesis by simp
  next
    case (Inr local_file)
    note local_file = this
    show ?thesis
    proof (cases "get_reader (init E) (extractor_type req)")
      case (Inl e)
      with assms rf local_file have "r = Inl e" "w' = w2" by (simp_all add: try_block_def)
      with w2 show ?thesis by simp
    next
      case (Inr rd)
      note rd = this
      with assms rf local_file obtain x w3 where
        run: "run_extraction (behaviour E rd) local_file w2 = Some (x, w3)"
        by (auto simp: try_block_def split: option.splits)
      from run_extraction_frame[OF run] w2 have w3: "status_log w3 = status_log w @ [PROCESSING]"
        "page_rows w3 = page_rows w" "pending_rows w3 = pending_rows w"
        "status (job w3) = PROCESSING"
        by auto
      show ?thesis
      proof (cases x)
        case (Inl e)
        with assms rf local_file rd run have "r = Inl e" "w' = w3"
          by (simp_all add: try_block_def)
        with w3 show ?thesis by simp
      next
        case (Inr pages)
        with assms rf local_file rd run
        have v: "validate_and_save E req pages w3 = (r, w')"
          by (simp add: try_block_def)
        from rf local_file rd run Inr v w3 show ?thesis by blast
      qed
    qed
  qed
qed

section \<open>The failure path and the shape of a run\<close>

lemma try_block_Inr:
  assumes "try_block C E req w = Some (Inr u, w')"
  shows "\<not> check_circuit_breaker C w (extractor_type req) \<and> db_processing E = None
     \<and> reset_outcome E = None \<and> complete_outcome E = None
     \<and> status_log w' = status_log w @ [PROCESSING, SUCCESS] \<and> status (job w') = SUCCESS
     \<and> pending_rows w' = []
     \<and> (\<exists>local w2 rd d w3 rows.
           resolve_file E req (mark_processing E w) = (Inr local, w2)
         \<and> get_reader (init E) (extractor_type req) = Inr rd
         \<and> run_extraction (behaviour E rd) local w2 = Some (Inr (PDict d), w3)
         \<and> has_meaningful_content (PDict d) = Inr True
         \<and> add_pages (uuid4 E) (job_uuid req) d (pending_rows w) = (None, rows)
         \<and> page_rows w' = page_rows w @ rows)"
proof -
  have nb: "\<not> check_circuit_breaker C w (extractor_type req)"
    using assms try_block_open[of C w req E] by auto
  have db: "db_processing E = None"
    using assms nb try_block_db[of C w req E] by (cases "db_processing E") auto
  from try_block_started[OF nb db assms] obtain local w2 rd pages w3 where
    a: "resolve_file E req (mark_processing E w) = (Inr local, w2)"
       "get_reader (init E) (extractor_type req) = Inr rd"
       "run_extraction (behaviour E rd) local w2 = Some (Inr pages, w3)"
    and v: "validate_and_save E req pages w3 = (Inr u, w')"
    and w3: "status_log w3 = status_log w @ [PROCESSING]" "page_rows w3 = page_rows w"
        "pending_rows w3 = pending_rows w"
    by auto
  from validate_and_save_cases[OF v] obtain d rows where
    c: "has_meaningful_content pages = Inr True"
       "status_log w' = status_log w3 @ [SUCCESS]" "status (job w') = SUCCESS"
       "pending_rows w' = []" "reset_outcome E = None" "complete_outcome E = None"
    and d: "pages = PDict d"
       "add_pages (uuid4 E) (job_uuid req) d (pending_rows w3) = (None, rows)"
       "page_rows w' = page_rows w3 @ rows"
    by auto
  have "\<exists>local w2 rd d w3 rows.
           resolve_file E req (mark_processing E w) = (Inr local, w2)
         \<and> get_reader (init E) (extractor_type req) = Inr rd
         \<and> run_extraction (behaviour E rd) local w2 = Some (Inr (PDict d), w3)
         \<and> has_meaningful_content (PDict d) = Inr True
         \<and> add_pages (uuid4 E) (job_uuid req) d (pending_rows w) = (None, rows)
         \<and> page_rows w' = page_rows w @ rows"
    using a c(1) d w3 by auto
  with nb db c w3 show ?thesis by simp
qed

lemma try_block_Inl:
  assumes "try_block C E req w = Some (Inl e, w')"
  shows "if check_circuit_breaker C w (extractor_type req) \<or> db_processing E \<noteq> None
         then w' = w
         else (status_log w' = status_log w @ [PROCESSING] \<and> status (job w') = PROCESSING
               \<and> page_rows w' = page_rows w)
              \<or> (status_log w' = status_log w @ [PROCESSING, SUCCESS]
                  \<and> (reset_outcome E \<noteq> None \<or> complete_outcome E \<noteq> None))"
proof (cases "check_circuit_breaker C w (extractor_type req)")
  case True
  from try_block_open[OF True, of E] assms True show ?thesis by simp
next
  case False
  note nb = this
  show ?thesis
  proof (cases "db_processing E")
    case (Some e')
    from try_block_db[OF nb Some] assms nb Some show ?thesis by simp
  next
    case None
    from try_block_started[OF nb None assms]
    have "(status_log w' = status_log w @ [PROCESSING] \<and> status (job w') = PROCESSING
               \<and> page_rows w' = page_rows w)
              \<or> (status_log w' = status_log w @ [PROCESSING, SUCCESS]
                  \<and> (reset_outcome E \<noteq> None \<or> complete_outcome E \<noteq> None))"
    proof
      assume "(\<exists>e'. Inl e = Inl e')
           \<and> status_log w' = status_log w @ [PROCESSING] \<and> page_rows w' = page_rows w
           \<and> status (job w') = PROCESSING"
      then show ?thesis by simp
    next
      assume "\<exists>local w2 rd pages w3.
             resolve_file E req (mark_processing E w) = (Inr local, w2)
           \<and> get_reader (init E) (extractor_type req) = Inr rd
           \<and> run_extraction (behaviour E rd) local w2 = Some (Inr pages, w3)
           \<and> validate_and_save E req pages w3 = (Inl e, w')
           \<and> status_log w3 = status_log w @ [PROCESSING] \<and> page_rows w3 = page_rows w
           \<and> pending_rows w3 = pending_rows w \<and> status (job w3) = PROCESSING"
      then obtain pages w3 where v: "validate_and_save E req pages w3 = (Inl e, w')"
        and w3: "status_log w3 = status_log w @ [PROCESSING]" "page_rows w3 = page_rows w"
          "status (job w3) = PROCESSING" by blast
      from validate_and_save_cases[OF v] w3 show ?thesis by auto
    qed
    with nb None show ?thesis by simp
  qed
qed

lemma breaker_ignores_pending [simp]:
  "check_circuit_breaker C (w\<lparr> pending_rows := rows \<rparr>) t = check_circuit_breaker C w t"
  by (simp add: check_circuit_breaker_def)

lemma runtime_error_not_infrastructure [simp]:
  "\<not> is_infrastructure_error (Exn RuntimeError m)"
  by (simp add: is_infrastructure_error_def)

lemma failure_path_effect:
  assumes "failure_path C E req e w = (out, w')"
  shows "out = (if is_infrastructure_error e then Propagated e
                else if request_retries E < max_retries (get_retry_config C (extractor_type req))
                then Retry e req (countdown (get_retry_config C (extractor_type req)))
                       (Suc (request_retries E))
                else Propagated e)
     \<and> status_log w' = status_log w @ (if db_failure E = None then [FAILURE] else [])
     \<and> (db_failure E = None \<longrightarrow> status (job w') = FAILURE \<and> cost (job w') = Some 0)
     \<and> (db_failure E \<noteq> None \<longrightarrow> job w' = job w)
     \<and> page_rows w' = page_rows w \<and> pending_rows w' = []
     \<and> calls w' = calls w @ [CallMarkTaskFailed]
     \<and> redis w' (circuit_key (extractor_type req))
          = Some (case redis w (circuit_key (extractor_type req)) of None \<Rightarrow> 1 | Some n \<Rightarrow> n + 1)
     \<and> redis_ttl w' (circuit_key (extractor_type req)) = Some (CIRCUIT_BREAKER_TIMEOUT C)"
  using assms
  by (cases "db_failure E")
     (auto simp: failure_path_def Let_def celery_retry_def record_extractor_failure_def
           split: if_splits)

lemma process_failed:
  assumes "try_block C E req (w\<lparr> pending_rows := [] \<rparr>) = Some (Inl e, w1)"
  shows "process_document_with_extractor C E req w = Some (failure_path C E req e w1)"
  using assms by (simp add: process_document_with_extractor_def)

lemma process_cases:
  assumes "process_document_with_extractor C E req w = Some (out, w')"
  shows "(out = Finished \<and> try_block C E req (w\<lparr> pending_rows := [] \<rparr>) = Some (Inr (), w'))
       \<or> (\<exists>e w1. try_block C E req (w\<lparr> pending_rows := [] \<rparr>) = Some (Inl e, w1)
              \<and> failure_path C E req e w1 = (out, w') \<and> out \<noteq> Finished)"
proof (cases "try_block C E req (w\<lparr> pending_rows := [] \<rparr>)")
  case None
  with assms show ?thesis by (simp add: process_document_with_extractor_def)
next
  case (Some rw)
  obtain r w1 where rw: "rw = (r, w1)" by (cases rw)
  show ?thesis
  proof (cases r)
    case (Inl e)
    with Some rw assms have f: "failure_path C E req e w1 = (out, w')"
      by (simp add: process_document_with_extractor_def)
    from failure_path_effect[OF f] have "out \<noteq> Finished" by (auto split: if_splits)
    with Some rw Inl f show ?thesis by blast
  next
    case (Inr u)
    with Some rw assms show ?thesis by (simp add: process_document_with_extractor_def)
  qed
qed

lemma map_option_fst_Some: "map_option fst x = Some a \<Longrightarrow> \<exists>b. x = Some (a, b)"
  by (cases x) auto

lemmas run_defs = process_document_with_extractor_def try_block_def failure_path_def
  DocumentPageContent_def mark_processing_def deliver_retry_def construct_def
  check_circuit_breaker_def circuit_key_def resolve_file_def get_reader_def READER_MAP_def
  run_extraction_def validate_and_save_def save_pages_def finalize_def
  record_extractor_failure_def reset_circuit_breaker_def log_calls_def poll_calls_def
  celery_retry_def get_retry_config_def is_infrastructure_error_def
  has_meaningful_content_def has_meaningful_try_def page_text_def py_or_def strip_def
  is_space_def calculate_extraction_cost_def cost_per_page_def py_str_def

lemmas sample_defs = sample_constants_def sample_env_def sample_request_def fresh_world_def
  open_breaker_world_def sample_behaviour_def webhook_ops_def hello_pdf_def
  PyPDF2Extractor_ops_def PyPDF2Extractor_read_def PyPDF2Extractor_page_contents_def
  PyMuPDFExtractor_ops_def PyMuPDFExtractor_read_def
  TesseractExtractor_ops_def TesseractExtractor_read_def error_page_def exn_str_def

section \<open>The registry\<close>

text \<open>
  C7, as the specification states it, fails: resolution calls the registered constructor,
  and the constructor of the OpenAI vision extractor builds the API client, which raises
  when no API key is configured. For a registered identifier resolution then raises and
  returns no instance.
\<close>

theorem registered_constructor_raises:
  "''gpt-4o'' \<in> fst ` set READER_MAP
   \<and> get_reader \<lparr> openai_client = Some (Exn (Derived ''OpenAIError'' Exception)
                                          ''The api_key client option must be set''),
                   llamaparse_init = None \<rparr> ''gpt-4o''
       = Inl (Exn (Derived ''OpenAIError'' Exception) ''The api_key client option must be set'')"
  by (simp add: get_reader_def READER_MAP_def construct_def)

text \<open>
  C7, amended: for every extractor identifier without an entry in the registry, resolution
  fails with the unknown-extractor error (a \<open>ValueError\<close> in the source); for every
  registered identifier, resolution is the call of the registered constructor: it returns
  the instance for the local extractors, Textract and Mathpix, and for the OpenAI models
  and LlamaParse it returns the instance or raises what the constructor raises.
  Resolution itself writes nothing: when it fails inside the executor, the \<open>try\<close> block
  raises that error with the job and the store as the file lookup left them, PROCESSING
  having been set before.
\<close>

theorem get_reader_resolution:
  "(t \<notin> fst ` set READER_MAP \<longrightarrow>
      get_reader I t = Inl (Exn ValueError (''Unknown extractor type: '' @ t)))
   \<and> (t \<in> fst ` set READER_MAP \<longrightarrow>
        (\<exists>r. (t, r) \<in> set READER_MAP \<and> get_reader I t = construct I r))
   \<and> (t \<in> set [''PyMuPDF'', ''PDFPlumber'', ''PyPDF2'', ''Tesseract'', ''Textract'',
                 ''MarkItDown'', ''Mathpix''] \<longrightarrow>
        (\<exists>r. (t, r) \<in> set READER_MAP \<and> get_reader I t = Inr r))
   \<and> (t \<in> set [''gpt-4o-mini'', ''gpt-4o'', ''gpt-4-turbo''] \<longrightarrow>
        get_reader I t = (case openai_client I of
                            None \<Rightarrow> Inr (OpenAIVisionExtractor t) | Some e \<Rightarrow> Inl e))
   \<and> (t = ''LlamaParse'' \<longrightarrow>
        get_reader I t = (case llamaparse_init I of
                            None \<Rightarrow> Inr LlamaParseExtractor | Some e \<Rightarrow> Inl e))
   \<and> (\<forall>C E req w local w2 e.
         \<not> check_circuit_breaker C w (extractor_type req) \<and> db_processing E = None
         \<and> resolve_file E req (mark_processing E w) = (Inr local, w2)
         \<and> get_reader (init E) (extractor_type req) = Inl e
         \<longrightarrow> try_block C E req w = Some (Inl e, w2))"
proof -
  have a: "t \<notin> fst ` set READER_MAP \<longrightarrow>
      get_reader I t = Inl (Exn ValueError (''Unknown extractor type: '' @ t))"
    by (simp add: get_reader_def map_of_eq_None_iff[symmetric])
  have b: "t \<in> fst ` set READER_MAP \<longrightarrow>
        (\<exists>r. (t, r) \<in> set READER_MAP \<and> get_reader I t = construct I r)"
  proof
    assume "t \<in> fst ` set READER_MAP"
    then obtain r where r: "map_of READER_MAP t = Some r"
      by (cases "map_of READER_MAP t") (simp_all add: map_of_eq_None_iff)
    from map_of_SomeD[OF r] r show "\<exists>r. (t, r) \<in> set READER_MAP \<and> get_reader I t = construct I r"
      by (auto simp: get_reader_def)
  qed
  have c: "t \<in> set [''PyMuPDF'', ''PDFPlumber'', ''PyPDF2'', ''Tesseract'', ''Textract'',
                 ''MarkItDown'', ''Mathpix''] \<longrightarrow>
        (\<exists>r. (t, r) \<in> set READER_MAP \<and> get_reader I t = Inr r)"
    by (auto simp: get_reader_def READER_MAP_def construct_def)
  have d: "t \<in> set [''gpt-4o-mini'', ''gpt-4o'', ''gpt-4-turbo''] \<longrightarrow>
        get_reader I t = (case openai_client I of
                            None \<Rightarrow> Inr (OpenAIVisionExtractor t) | Some e \<Rightarrow> Inl e)"
    by (auto simp: get_reader_def READER_MAP_def construct_def)
  have e: "t = ''LlamaParse'' \<longrightarrow>
        get_reader I t = (case llamaparse_init I of
                            None \<Rightarrow> Inr LlamaParseExtractor | Some e \<Rightarrow> Inl e)"
    by (auto simp: get_reader_def READER_MAP_def construct_def)
  have f: "\<forall>C E req w local w2 e.
         \<not> check_circuit_breaker C w (extractor_type req) \<and> db_processing E = None
         \<and> resolve_file E req (mark_processing E w) = (Inr local, w2)
         \<and> get_reader (init E) (extractor_type req) = Inl e
         \<longrightarrow> try_block C E req w = Some (Inl e, w2)"
    by (intro allI impI) (simp add: try_block_unknown)
  from a b c d e f show ?thesis by (intro conjI)
qed

theorem get_reader_resolution_witness:
  "''Camelot'' \<notin> fst ` set READER_MAP
   \<and> get_reader (init sample_env) ''Camelot''
       = Inl (Exn ValueError ''Unknown extractor type: Camelot'')
   \<and> ''PyPDF2'' \<in> set [''PyMuPDF'', ''PDFPlumber'', ''PyPDF2'', ''Tesseract'', ''Textract'',
                         ''MarkItDown'', ''Mathpix'']
   \<and> get_reader (init sample_env) ''PyPDF2'' = Inr PyPDF2Extractor
   \<and> get_reader (init sample_env) ''gpt-4o'' = Inr (OpenAIVisionExtractor ''gpt-4o'')
   \<and> map_option fst (try_block sample_constants sample_env (sample_request ''Camelot'')
                        fresh_world)
       = Some (Inl (Exn ValueError ''Unknown extractor type: Camelot''))
   \<and> map_option (status_log \<circ> snd)
        (try_block sample_constants sample_env (sample_request ''Camelot'') fresh_world)
       = Some [PROCESSING]"
proof -
  note inst = get_reader_resolution[of _ "init sample_env"]
  have a: "''Camelot'' \<notin> fst ` set READER_MAP" by (simp add: READER_MAP_def)
  from inst[of "''Camelot''", THEN conjunct1] a
  have b: "get_reader (init sample_env) ''Camelot''
       = Inl (Exn ValueError ''Unknown extractor type: Camelot'')" by simp
  have c: "''PyPDF2'' \<in> set [''PyMuPDF'', ''PDFPlumber'', ''PyPDF2'', ''Tesseract'', ''Textract'',
                         ''MarkItDown'', ''Mathpix'']" by simp
  from inst[of "''PyPDF2''", THEN conjunct2, THEN conjunct2, THEN conjunct1] c
  obtain r where r: "(''PyPDF2'', r) \<in> set READER_MAP" "get_reader (init sample_env) ''PyPDF2'' = Inr r"
    by blast
  from r(1) have "r = PyPDF2Extractor" by (simp add: READER_MAP_def)
  with r(2) have d: "get_reader (init sample_env) ''PyPDF2'' = Inr PyPDF2Extractor" by simp
  from inst[of "''gpt-4o''", THEN conjunct2, THEN conjunct2, THEN conjunct2, THEN conjunct1]
  have e: "get_reader (init sample_env) ''gpt-4o'' = Inr (OpenAIVisionExtractor ''gpt-4o'')"
    by (simp add: sample_defs)
  have pre: "\<not> check_circuit_breaker sample_constants fresh_world
                 (extractor_type (sample_request ''Camelot''))"
    "db_processing sample_env = None"
    "resolve_file sample_env (sample_request ''Camelot'') (mark_processing sample_env fresh_world)
       = (Inr ''/data/doc.pdf'', mark_processing sample_env fresh_world)"
    "get_reader (init sample_env) (extractor_type (sample_request ''Camelot''))
       = Inl (Exn ValueError ''Unknown extractor type: Camelot'')"
    using b by (simp_all add: check_circuit_breaker_def resolve_file_def sample_defs)
  from inst[of "''Camelot''", THEN conjunct2, THEN conjunct2, THEN conjunct2, THEN conjunct2,
            THEN conjunct2, rule_format, OF conjI[OF pre(1) conjI[OF pre(2) conjI[OF pre(3) pre(4)]]]]
  have f: "try_block sample_constants sample_env (sample_request ''Camelot'') fresh_world
      = Some (Inl (Exn ValueError ''Unknown extractor type: Camelot''),
              mark_processing sample_env fresh_world)" .
  have g: "status_log (mark_processing sample_env fresh_world) = [PROCESSING]"
    by (simp add: fresh_world_def)
  from a b c d e f g show ?thesis by simp
qed

section \<open>The verdict of the content validator\<close>

text \<open>
  C4, as the specification states it, fails: a page whose only non-blank value is under
  the MARKDOWN tag, or under the TABLE tag, is judged not meaningful, since the validator
  reads COMBINED, TEXT and LATEX only; and a page with a whitespace-only COMBINED value
  and a non-blank TEXT value is judged not meaningful too, since the validator takes the
  first non-empty of the three and strips that one alone.
\<close>

theorem unread_or_shadowed_text_is_rejected:
  "has_meaningful_content
     (PDict [(PInt 1, PDict [(PStr ''content'', PDict [(PStr ''MARKDOWN'', PStr ''# Title'')])])])
   = Inr False
   \<and> has_meaningful_content
       (PDict [(PInt 1, PDict [(PStr ''content'', PDict [(PStr ''TABLE'', PStr ''a | b'')])])])
     = Inr False
   \<and> has_meaningful_content
       (PDict [(PInt 1, PDict [(PStr ''content'',
                                 PDict [(PStr ''COMBINED'', PStr '' ''),
                                        (PStr ''TEXT'', PStr ''Hello'')])])])
     = Inr False"
  by (simp add: has_meaningful_content_def has_meaningful_try_def page_text_def py_or_def
        strip_def is_space_def)

text \<open>
  C4, amended: on a normalized page map in which no page has, among its COMBINED, TEXT and
  LATEX values, a non-empty whitespace-only one beside a non-blank one, the validator
  returns true exactly when some page has a value under COMBINED, TEXT or LATEX that is
  not empty and not whitespace-only; values under other tags are not read, and an empty map
  gives false. The check runs on the whole map before anything is saved: when it returns
  false, the executor raises "No meaningful content" and leaves the store as it was.
\<close>

theorem validator_reads_combined_text_latex:
  assumes "list_all (\<lambda>(n, kinds, md). \<not> mixed_blank kinds) ps"
  shows "has_meaningful_content (encode_pages ps)
           = Inr (list_ex (\<lambda>(n, kinds, md).
                     \<not> blank (tag_value kinds ''COMBINED'')
                     \<or> \<not> blank (tag_value kinds ''TEXT'')
                     \<or> \<not> blank (tag_value kinds ''LATEX'')) ps)
     \<and> (has_meaningful_content pages = Inr False \<longrightarrow>
          validate_and_save E req pages w =
            (Inl (Exn RuntimeError
                    (''No meaningful content extracted by '' @ extractor_type req)), w))"
proof -
  have page: "page_is_meaningful p
                = (case p of (n, kinds, md) \<Rightarrow>
                     \<not> blank (tag_value kinds ''COMBINED'')
                     \<or> \<not> blank (tag_value kinds ''TEXT'')
                     \<or> \<not> blank (tag_value kinds ''LATEX''))" if "p \<in> set ps" for p
  proof -
    obtain n kinds md where p: "p = (n, kinds, md)" by (cases p)
    from that assms have "\<not> mixed_blank kinds" by (auto simp: list_all_iff p)
    from first_nonempty_unmixed[OF this] show ?thesis
      by (simp add: p page_is_meaningful_def read_values_def)
  qed
  have "(\<exists>p\<in>set ps. page_is_meaningful p)
          = (\<exists>p\<in>set ps. case p of (n, kinds, md) \<Rightarrow>
                     \<not> blank (tag_value kinds ''COMBINED'')
                     \<or> \<not> blank (tag_value kinds ''TEXT'')
                     \<or> \<not> blank (tag_value kinds ''LATEX''))"
    using page by blast
  then have "(\<exists>p\<in>set ps. page_is_meaningful p)
          = list_ex (\<lambda>(n, kinds, md).
                     \<not> blank (tag_value kinds ''COMBINED'')
                     \<or> \<not> blank (tag_value kinds ''TEXT'')
                     \<or> \<not> blank (tag_value kinds ''LATEX'')) ps"
    by (simp only: list_ex_iff)
  then have a: "has_meaningful_content (encode_pages ps)
           = Inr (list_ex (\<lambda>(n, kinds, md).
                     \<not> blank (tag_value kinds ''COMBINED'')
                     \<or> \<not> blank (tag_value kinds ''TEXT'')
                     \<or> \<not> blank (tag_value kinds ''LATEX'')) ps)"
    by (simp only: content_encode)
  have b: "has_meaningful_content pages = Inr False \<longrightarrow>
        validate_and_save E req pages w =
          (Inl (Exn RuntimeError
                  (''No meaningful content extracted by '' @ extractor_type req)), w)"
    by (simp add: validate_and_save_def)
  from a b show ?thesis by (intro conjI)
qed

theorem validator_reads_combined_text_latex_witness:
  "list_all (\<lambda>(n, kinds, md). \<not> mixed_blank kinds)
     [(1::int, [(''TEXT'', [])], None :: pyval option), (2, [(''TEXT'', ''  '')], None)]
   \<and> has_meaningful_content
       (encode_pages [(1, [(''TEXT'', [])], None), (2, [(''TEXT'', ''  '')], None)]) = Inr False
   \<and> list_all (\<lambda>(n, kinds, md). \<not> mixed_blank kinds)
       [(1::int, [(''MARKDOWN'', ''# Title'')], None :: pyval option),
        (2, [(''LATEX'', '' x '')], None)]
   \<and> has_meaningful_content
       (encode_pages [(1, [(''MARKDOWN'', ''# Title'')], None), (2, [(''LATEX'', '' x '')], None)])
     = Inr True
   \<and> validate_and_save sample_env (sample_request ''MarkItDown'')
         (encode_pages [(1, [(''TEXT'', [])], None), (2, [(''TEXT'', ''  '')], None)]) fresh_world
       = (Inl (Exn RuntimeError ''No meaningful content extracted by MarkItDown''), fresh_world)"
proof -
  let ?blank = "[(1::int, [(''TEXT'', [])], None :: pyval option), (2, [(''TEXT'', ''  '')], None)]"
  let ?good = "[(1::int, [(''MARKDOWN'', ''# Title'')], None :: pyval option),
                (2, [(''LATEX'', '' x '')], None)]"
  have h1: "list_all (\<lambda>(n, kinds, md). \<not> mixed_blank kinds) ?blank"
    by (simp add: mixed_blank_def read_values_def tag_value_def blank_def is_space_def)
  have h2: "list_all (\<lambda>(n, kinds, md). \<not> mixed_blank kinds) ?good"
    by (simp add: mixed_blank_def read_values_def tag_value_def blank_def is_space_def)
  from validator_reads_combined_text_latex[OF h1, THEN conjunct1]
  have a: "has_meaningful_content (encode_pages ?blank) = Inr False"
    by (simp add: tag_value_def blank_def is_space_def)
  from validator_reads_combined_text_latex[OF h2, THEN conjunct1]
  have b: "has_meaningful_content (encode_pages ?good) = Inr True"
    by (simp add: tag_value_def blank_def is_space_def)
  from validator_reads_combined_text_latex
         [OF h1, of "encode_pages ?blank" sample_env "sample_request ''MarkItDown''" fresh_world,
          THEN conjunct2] a
  have c: "validate_and_save sample_env (sample_request ''MarkItDown'')
         (encode_pages ?blank) fresh_world
       = (Inl (Exn RuntimeError ''No meaningful content extracted by MarkItDown''), fresh_world)"
    by (simp add: sample_request_def)
  from h1 a h2 b c show ?thesis by (intro conjI)
qed

text \<open>
  C9: the content check is total. On every value it returns a boolean and does not raise;
  \<open>None\<close> gives false; a page whose body is \<open>None\<close> or has no content entry is passed
  over; and the answer is true only because of a page whose body is a mapping with a
  content mapping holding a string that is non-empty after stripping, so a malformed page
  never counts as meaningful.
\<close>

theorem content_check_never_raises:
  "(\<exists>b. has_meaningful_content v = Inr b)
   \<and> has_meaningful_content PNone = Inr False
   \<and> has_meaningful_content (PDict ((k, PNone) # rest)) = has_meaningful_content (PDict rest)
   \<and> (map_of body (PStr ''content'') = None \<longrightarrow>
        has_meaningful_content (PDict ((k, PDict body) # rest))
          = has_meaningful_content (PDict rest))
   \<and> (has_meaningful_content v = Inr True \<longrightarrow>
        (\<exists>d key b data s. v = PDict d \<and> (key, PDict b) \<in> set d
           \<and> map_of b (PStr ''content'') = Some (PDict data)
           \<and> page_text (PDict b) = Inr (PStr s) \<and> s \<noteq> []))"
proof -
  have a: "\<exists>b. has_meaningful_content v = Inr b" by (rule content_total)
  have b: "has_meaningful_content PNone = Inr False"
    by (simp add: has_meaningful_content_def has_meaningful_try_def)
  have e: "has_meaningful_content (PDict []) = Inr False"
    by (simp add: has_meaningful_content_def has_meaningful_try_def)
  have c: "has_meaningful_content (PDict ((k, PNone) # rest)) = has_meaningful_content (PDict rest)"
    by (cases rest)
       (simp_all add: has_meaningful_content_def has_meaningful_try_def malformed_pages(1))
  have d: "map_of body (PStr ''content'') = None \<longrightarrow>
        has_meaningful_content (PDict ((k, PDict body) # rest))
          = has_meaningful_content (PDict rest)"
    by (cases rest)
       (simp_all add: has_meaningful_content_def has_meaningful_try_def malformed_pages(3))
  have f: "has_meaningful_content v = Inr True \<longrightarrow>
        (\<exists>d key b data s. v = PDict d \<and> (key, PDict b) \<in> set d
           \<and> map_of b (PStr ''content'') = Some (PDict data)
           \<and> page_text (PDict b) = Inr (PStr s) \<and> s \<noteq> [])"
    using content_True[of v] by blast
  from a b c d f show ?thesis by blast
qed

theorem content_check_never_raises_witness:
  "has_meaningful_content
     (PDict [(PInt 1, PNone),
             (PInt 2, PDict [(PStr ''metadata'', PDict [])]),
             (PInt 3, PDict [(PStr ''content'', PDict [(PStr ''TEXT'', PStr ''hi'')])])])
     = Inr True
   \<and> has_meaningful_content
       (PDict [(PInt 1, PDict [(PStr ''metadata'', PDict [])]), (PInt 2, PStr ''text'')])
     = Inr False"
proof -
  let ?good = "PDict [(PInt 3, PDict [(PStr ''content'', PDict [(PStr ''TEXT'', PStr ''hi'')])])]"
  have g: "has_meaningful_content ?good = Inr True"
    by (simp add: has_meaningful_content_def has_meaningful_try_def page_text_def py_or_def
          strip_def is_space_def)
  have m: "map_of [(PStr ''metadata'', PDict [])] (PStr ''content'') = None" by simp
  have b: "has_meaningful_content (PDict [(PInt 2, PStr ''text'')]) = Inr False"
    by (simp add: has_meaningful_content_def has_meaningful_try_def page_text_def py_or_def)
  from content_check_never_raises
         [of _ "PInt 2" "[(PInt 3, PDict [(PStr ''content'', PDict [(PStr ''TEXT'', PStr ''hi'')])])]"
             "[(PStr ''metadata'', PDict [])]"] m g
  have s2: "has_meaningful_content
     (PDict [(PInt 2, PDict [(PStr ''metadata'', PDict [])]),
             (PInt 3, PDict [(PStr ''content'', PDict [(PStr ''TEXT'', PStr ''hi'')])])])
     = Inr True" by simp
  from content_check_never_raises
         [of _ "PInt 1" "[(PInt 2, PDict [(PStr ''metadata'', PDict [])]),
             (PInt 3, PDict [(PStr ''content'', PDict [(PStr ''TEXT'', PStr ''hi'')])])]"] s2
  have s1: "has_meaningful_content
     (PDict [(PInt 1, PNone),
             (PInt 2, PDict [(PStr ''metadata'', PDict [])]),
             (PInt 3, PDict [(PStr ''content'', PDict [(PStr ''TEXT'', PStr ''hi'')])])])
     = Inr True" by simp
  from content_check_never_raises
         [of _ "PInt 1" "[(PInt 2, PStr ''text'')]" "[(PStr ''metadata'', PDict [])]"] m b
  have s3: "has_meaningful_content
       (PDict [(PInt 1, PDict [(PStr ''metadata'', PDict [])]), (PInt 2, PStr ''text'')])
     = Inr False" by simp
  from s1 s3 show ?thesis by simp
qed

section \<open>The circuit breaker in the executor\<close>

text \<open>
  C1, as the specification states it, fails: with the breaker open the error raised is an
  ordinary \<open>RuntimeError\<close> inside the \<open>try\<close> block, so the failure path runs and the task is
  sent again with retry count 1.
\<close>

theorem open_breaker_job_is_retried:
  "check_circuit_breaker sample_constants open_breaker_world ''PyPDF2''
   \<and> map_option fst (process_document_with_extractor sample_constants sample_env
                       (sample_request ''PyPDF2'') open_breaker_world)
     = Some (Retry (Exn RuntimeError
          ''Circuit breaker is OPEN for PyPDF2. Too many recent failures. Try again later.'')
          (sample_request ''PyPDF2'') 60 1)"
  by (simp add: run_defs sample_defs Let_def)

text \<open>
  C1, amended: when the circuit breaker is open for the job's extractor, the invocation
  raises a \<open>RuntimeError\<close> without setting PROCESSING, without any call to the reader and
  without storing a page; the error then takes the ordinary failure path: FAILURE is
  written (when that update commits), the failure is counted against the breaker, the file
  coordinator is told, and the task is retried after the configured delay unless the retry
  count has reached the configured maximum.
\<close>

theorem open_breaker_takes_failure_path:
  assumes "check_circuit_breaker C w (extractor_type req)"
  shows "\<exists>w' n.
     process_document_with_extractor C E req w =
       Some ((if request_retries E < max_retries (get_retry_config C (extractor_type req))
              then Retry (Exn RuntimeError (''Circuit breaker is OPEN for '' @ extractor_type req
                            @ ''. Too many recent failures. Try again later.''))
                     req (countdown (get_retry_config C (extractor_type req)))
                     (Suc (request_retries E))
              else Propagated (Exn RuntimeError (''Circuit breaker is OPEN for ''
                            @ extractor_type req
                            @ ''. Too many recent failures. Try again later.''))), w')
     \<and> calls w' = calls w @ [CallMarkTaskFailed]
     \<and> status_log w' = status_log w @ (if db_failure E = None then [FAILURE] else [])
     \<and> page_rows w' = page_rows w
     \<and> redis w (circuit_key (extractor_type req)) = Some n
     \<and> CIRCUIT_BREAKER_THRESHOLD C \<le> n
     \<and> redis w' (circuit_key (extractor_type req)) = Some (n + 1)"
proof -
  let ?e = "Exn RuntimeError (''Circuit breaker is OPEN for '' @ extractor_type req
                            @ ''. Too many recent failures. Try again later.'')"
  let ?w0 = "w\<lparr> pending_rows := [] \<rparr>"
  from assms obtain n where n: "redis w (circuit_key (extractor_type req)) = Some n"
    "CIRCUIT_BREAKER_THRESHOLD C \<le> n"
    by (auto simp: check_circuit_breaker_def split: option.splits)
  have t: "try_block C E req ?w0 = Some (Inl ?e, ?w0)"
    using assms by (simp add: try_block_open)
  obtain out w' where f: "failure_path C E req ?e ?w0 = (out, w')"
    by (cases "failure_path C E req ?e ?w0")
  from process_failed[OF t] f
  have p: "process_document_with_extractor C E req w = Some (out, w')" by simp
  from failure_path_effect[OF f] n p show ?thesis by simp
qed

theorem open_breaker_takes_failure_path_witness:
  "check_circuit_breaker sample_constants open_breaker_world ''PyPDF2''
   \<and> (\<exists>w'. process_document_with_extractor sample_constants sample_env
              (sample_request ''PyPDF2'') open_breaker_world
            = Some (Retry (Exn RuntimeError
                ''Circuit breaker is OPEN for PyPDF2. Too many recent failures. Try again later.'')
                (sample_request ''PyPDF2'') 60 1, w')
          \<and> calls w' = [CallMarkTaskFailed] \<and> status_log w' = [FAILURE]
          \<and> redis w' (circuit_key ''PyPDF2'') = Some 6)"
proof -
  have h: "check_circuit_breaker sample_constants open_breaker_world
             (extractor_type (sample_request ''PyPDF2''))"
    by (simp add: check_circuit_breaker_def sample_defs circuit_key_def)
  from open_breaker_takes_failure_path[OF h, of sample_env] h
  show ?thesis
    by (auto simp: sample_defs get_retry_config_def circuit_key_def)
qed

section \<open>The status sequence\<close>

text \<open>
  C3, as the specification states it, fails in three ways. With the breaker open a job
  that is NOT_STARTED is set to FAILURE without having been PROCESSING. When the retry
  that a failed invocation schedules is delivered, the job goes from FAILURE back to
  PROCESSING, with no NOT_STARTED in between. When the completion notice to the file
  coordinator raises after the SUCCESS commit, the failure path sets the job to FAILURE
  after SUCCESS.
\<close>

theorem status_sequence_counterexamples:
  "status (job open_breaker_world) = NOT_STARTED
   \<and> map_option (status_log \<circ> snd)
        (process_document_with_extractor sample_constants sample_env
           (sample_request ''PyPDF2'') open_breaker_world) = Some [FAILURE]
   \<and> \<not> prefix [NOT_STARTED, FAILURE] [NOT_STARTED, PROCESSING, SUCCESS]
   \<and> \<not> prefix [NOT_STARTED, FAILURE] [NOT_STARTED, PROCESSING, FAILURE]
   \<and> status (job fresh_world) = NOT_STARTED
   \<and> map_option (status_log \<circ> snd)
        (deliver_retry sample_constants sample_env
           (process_document_with_extractor sample_constants sample_env
              (sample_request ''Camelot'') fresh_world))
       = Some [PROCESSING, FAILURE, PROCESSING, FAILURE]
   \<and> map_option (status_log \<circ> snd)
        (process_document_with_extractor sample_constants
           (sample_env\<lparr> complete_outcome := Some (Exn OSError ''cleanup failed'') \<rparr>)
           (sample_request ''Tesseract'') fresh_world)
       = Some [PROCESSING, SUCCESS, FAILURE]"
  by (simp add: run_defs sample_defs Let_def)

text \<open>
  C3, amended: take one invocation that returns or raises, on a job that is NOT_STARTED,
  in which the breaker reset and the completion notice that follow the SUCCESS commit
  return. The statuses it writes are PROCESSING (left out when the breaker is open or the
  PROCESSING update does not commit) followed by SUCCESS when the invocation returns, and
  otherwise by FAILURE (left out when the FAILURE update does not commit). After the
  initial NOT_STARTED this is a prefix of NOT_STARTED, PROCESSING, SUCCESS or of
  NOT_STARTED, PROCESSING, FAILURE, except for NOT_STARTED, FAILURE in the two cases
  named. SUCCESS is never written without PROCESSING directly before it, every step is
  one of NOT_STARTED to PROCESSING, PROCESSING to SUCCESS, PROCESSING to FAILURE and
  NOT_STARTED to FAILURE, so none is reversed, and the job ends in the last status
  written.
\<close>

theorem status_writes_of_one_invocation:
  assumes "process_document_with_extractor C E req w = Some (out, w')"
    and "status (job w) = NOT_STARTED" and "status_log w = []"
    and "reset_outcome E = None" and "complete_outcome E = None"
  shows "status_log w'
           = (if check_circuit_breaker C w (extractor_type req) \<or> db_processing E \<noteq> None
              then [] else [PROCESSING])
             @ (if out = Finished then [SUCCESS]
                else if db_failure E = None then [FAILURE] else [])
     \<and> (prefix (status (job w) # status_log w') [NOT_STARTED, PROCESSING, SUCCESS]
         \<or> prefix (status (job w) # status_log w') [NOT_STARTED, PROCESSING, FAILURE]
         \<or> status (job w) # status_log w' = [NOT_STARTED, FAILURE]
            \<and> (check_circuit_breaker C w (extractor_type req) \<or> db_processing E \<noteq> None))
     \<and> (SUCCESS \<in> set (status_log w') \<longrightarrow> status_log w' = [PROCESSING, SUCCESS])
     \<and> set (zip (status (job w) # status_log w') (status_log w'))
           \<subseteq> set [(NOT_STARTED, PROCESSING), (PROCESSING, SUCCESS),
                     (PROCESSING, FAILURE), (NOT_STARTED, FAILURE)]
     \<and> status (job w') = last (status (job w) # status_log w')"
proof -
  let ?w0 = "w\<lparr> pending_rows := [] \<rparr>"
  define skip where
    "skip \<longleftrightarrow> check_circuit_breaker C w (extractor_type req) \<or> db_processing E \<noteq> None"
  define new where
    "new = (if skip then [] else [PROCESSING])
             @ (if out = Finished then [SUCCESS]
                else if db_failure E = None then [FAILURE] else [])"
  from process_cases[OF assms(1)]
  have "status_log w' = new \<and> (out = Finished \<longrightarrow> \<not> skip)
          \<and> status (job w') = last (NOT_STARTED # new)"
  proof
    assume a: "out = Finished \<and> try_block C E req ?w0 = Some (Inr (), w')"
    from try_block_Inr[of C E req ?w0 "()" w'] a assms(3) show ?thesis
      by (simp add: new_def skip_def)
  next
    assume "\<exists>e w1. try_block C E req ?w0 = Some (Inl e, w1)
              \<and> failure_path C E req e w1 = (out, w') \<and> out \<noteq> Finished"
    then obtain e w1 where t: "try_block C E req ?w0 = Some (Inl e, w1)"
      and f: "failure_path C E req e w1 = (out, w')" and nf: "out \<noteq> Finished" by blast
    from try_block_Inl[OF t] assms(2-5)
    have w1: "status_log w1 = (if skip then [] else [PROCESSING])"
      "status (job w1) = (if skip then NOT_STARTED else PROCESSING)"
      unfolding skip_def by (auto split: if_splits)
    from failure_path_effect[OF f]
    have l: "status_log w' = status_log w1 @ (if db_failure E = None then [FAILURE] else [])"
      and j1: "db_failure E = None \<longrightarrow> status (job w') = FAILURE"
      and j2: "db_failure E \<noteq> None \<longrightarrow> job w' = job w1"
      by simp_all
    from l w1(1) nf have "status_log w' = new" by (simp add: new_def)
    moreover from j1 j2 w1(2) nf have "status (job w') = last (NOT_STARTED # new)"
      by (cases skip; cases "db_failure E = None") (simp_all add: new_def)
    ultimately show ?thesis using nf by simp
  qed
  then have log: "status_log w' = new" and fin: "out = Finished \<longrightarrow> \<not> skip"
    and st: "status (job w') = last (NOT_STARTED # new)"
    by simp_all
  have shape: "prefix (NOT_STARTED # new) [NOT_STARTED, PROCESSING, SUCCESS]
         \<or> prefix (NOT_STARTED # new) [NOT_STARTED, PROCESSING, FAILURE]
         \<or> NOT_STARTED # new = [NOT_STARTED, FAILURE] \<and> skip"
    using fin by (cases skip; cases "out = Finished"; cases "db_failure E = None")
                 (simp_all add: new_def)
  have succ: "SUCCESS \<in> set new \<longrightarrow> new = [PROCESSING, SUCCESS]"
    using fin by (cases skip; cases "out = Finished"; cases "db_failure E = None")
                 (simp_all add: new_def)
  have steps: "set (zip (NOT_STARTED # new) new)
           \<subseteq> set [(NOT_STARTED, PROCESSING), (PROCESSING, SUCCESS),
                     (PROCESSING, FAILURE), (NOT_STARTED, FAILURE)]"
    using fin by (cases skip; cases "out = Finished"; cases "db_failure E = None")
                 (simp_all add: new_def)
  from log shape succ steps st assms(2) show ?thesis
    unfolding new_def skip_def by simp
qed

theorem status_writes_of_one_invocation_witness:
  "\<exists>w'. process_document_with_extractor sample_constants sample_env
           (sample_request ''Tesseract'') fresh_world = Some (Finished, w')
        \<and> status (job fresh_world) = NOT_STARTED \<and> status_log fresh_world = []
        \<and> reset_outcome sample_env = None \<and> complete_outcome sample_env = None
        \<and> status_log w' = [PROCESSING, SUCCESS]
        \<and> status (job w') = SUCCESS"
proof -
  have "map_option fst (process_document_with_extractor sample_constants sample_env
           (sample_request ''Tesseract'') fresh_world) = Some Finished"
    by (simp add: run_defs sample_defs Let_def)
  then have "\<exists>w'. process_document_with_extractor sample_constants sample_env
           (sample_request ''Tesseract'') fresh_world = Some (Finished, w')"
    by (rule map_option_fst_Some)
  then obtain w' where p: "process_document_with_extractor sample_constants sample_env
           (sample_request ''Tesseract'') fresh_world = Some (Finished, w')" ..
  have h: "status (job fresh_world) = NOT_STARTED" "status_log fresh_world = []"
    "reset_outcome sample_env = None" "complete_outcome sample_env = None"
    by (simp_all add: sample_defs)
  have nb: "\<not> check_circuit_breaker sample_constants fresh_world
               (extractor_type (sample_request ''Tesseract''))"
    "db_processing sample_env = None"
    by (simp_all add: check_circuit_breaker_def sample_defs)
  note inst = status_writes_of_one_invocation[OF p h]
  from inst[THEN conjunct1] nb have l: "status_log w' = [PROCESSING, SUCCESS]" by simp
  from inst[THEN conjunct2, THEN conjunct2, THEN conjunct2, THEN conjunct2] l h(1)
  have s: "status (job w') = SUCCESS" by simp
  from p h l s show ?thesis by blast
qed

section \<open>Classification of failures\<close>




section \<open>What is stored for a page\<close>

text \<open>
  C10: when an invocation returns, the rows it has stored correspond one to one, in order,
  to the pages of the page map that the resolved extractor returned for the job's file; a
  row holds the job's identifier, the page number and the value under the page's
  \<open>content\<close> key, and its metadata column is the default empty dict. Nothing else of
  a page reaches the store: two page maps with the same page numbers and the same values
  under \<open>content\<close> give the same rows, whatever metadata they carry.
\<close>

theorem stored_rows_hold_content_only:
  assumes "process_document_with_extractor C E req w = Some (Finished, w')"
  shows "\<exists>local w1 w2 rd d w3 new.
       resolve_file E req w1 = (Inr local, w2)
     \<and> get_reader (init E) (extractor_type req) = Inr rd
     \<and> run_extraction (behaviour E rd) local w2 = Some (Inr (PDict d), w3)
     \<and> page_rows w' = page_rows w @ new \<and> pending_rows w' = []
     \<and> list_all2 (\<lambda>page row. \<exists>c u. subscript (snd page) (PStr ''content'') = Inr c
                      \<and> row = DocumentPageContent u (job_uuid req) (fst page) c None) d new
     \<and> list_all (\<lambda>row. metadata_col row = PDict []
                      \<and> extraction_job_uuid row = job_uuid req) new
     \<and> (\<forall>d'. map (\<lambda>page. (fst page, subscript (snd page) (PStr ''content''))) d'
                 = map (\<lambda>page. (fst page, subscript (snd page) (PStr ''content''))) d
               \<longrightarrow> add_pages (uuid4 E) (job_uuid req) d' [] = (None, new))"
proof -
  let ?w0 = "w\<lparr> pending_rows := [] \<rparr>"
  from process_cases[OF assms]
  have t: "try_block C E req ?w0 = Some (Inr (), w')" by auto
  from try_block_Inr[OF t] obtain local w2 rd d w3 rows where
    r: "resolve_file E req (mark_processing E ?w0) = (Inr local, w2)"
       "get_reader (init E) (extractor_type req) = Inr rd"
       "run_extraction (behaviour E rd) local w2 = Some (Inr (PDict d), w3)"
    and a: "add_pages (uuid4 E) (job_uuid req) d [] = (None, rows)"
    and p: "page_rows w' = page_rows w @ rows" "pending_rows w' = []"
    by auto
  from add_pages_rows[OF a] obtain new where
    n: "rows = [] @ new"
       "list_all2 (\<lambda>page row. \<exists>c u. subscript (snd page) (PStr ''content'') = Inr c
                      \<and> row = DocumentPageContent u (job_uuid req) (fst page) c None) d new"
    by blast
  from n(1) have rn: "rows = new" by simp
  note m = rows_default_metadata[OF n(2)]
  have ni: "\<forall>d'. map (\<lambda>page. (fst page, subscript (snd page) (PStr ''content''))) d'
                 = map (\<lambda>page. (fst page, subscript (snd page) (PStr ''content''))) d
               \<longrightarrow> add_pages (uuid4 E) (job_uuid req) d' [] = (None, new)"
    using add_pages_content_only[of _ d "uuid4 E" "job_uuid req" "[]"] a rn by simp
  from r p rn n(2) m ni show ?thesis by blast
qed

theorem stored_rows_hold_content_only_witness:
  "map_option fst (run_extraction (behaviour sample_env PyPDF2Extractor) ''/data/doc.pdf''
                     fresh_world)
     = Some (Inr (PDict [(PInt 1,
                          PDict [(PStr ''content'', PDict [(PStr ''TEXT'', PStr ''Hello'')]),
                                 (PStr ''metadata'',
                                    PDict [(PStr ''extractor'', PStr ''PyPDF2''),
                                           (PStr ''page_number'', PInt 1)])])]))
   \<and> (\<exists>w'. process_document_with_extractor sample_constants sample_env
              (sample_request ''PyPDF2'') fresh_world = Some (Finished, w')
          \<and> page_rows w'
              = [\<lparr> uuid = ''uuid-0'', extraction_job_uuid = ''job-a'', page_number = PInt 1,
                   content = PDict [(PStr ''TEXT'', PStr ''Hello'')],
                   metadata_col = PDict [] \<rparr>]
          \<and> list_all (\<lambda>row. metadata_col row = PDict []) (page_rows w'))"
proof -
  have a: "map_option fst (run_extraction (behaviour sample_env PyPDF2Extractor) ''/data/doc.pdf''
                     fresh_world)
     = Some (Inr (PDict [(PInt 1,
                          PDict [(PStr ''content'', PDict [(PStr ''TEXT'', PStr ''Hello'')]),
                                 (PStr ''metadata'',
                                    PDict [(PStr ''extractor'', PStr ''PyPDF2''),
                                           (PStr ''page_number'', PInt 1)])])]))"
    by (simp add: run_defs sample_defs Let_def poll_status.simps)
  have "map_option fst (process_document_with_extractor sample_constants sample_env
              (sample_request ''PyPDF2'') fresh_world) = Some Finished"
    by (simp add: run_defs sample_defs Let_def poll_status.simps)
  then have "\<exists>w'. process_document_with_extractor sample_constants sample_env
              (sample_request ''PyPDF2'') fresh_world = Some (Finished, w')"
    by (rule map_option_fst_Some)
  then obtain w' where p: "process_document_with_extractor sample_constants sample_env
              (sample_request ''PyPDF2'') fresh_world = Some (Finished, w')" ..
  have "map_option (page_rows \<circ> snd) (process_document_with_extractor sample_constants sample_env
              (sample_request ''PyPDF2'') fresh_world)
          = Some [\<lparr> uuid = ''uuid-0'', extraction_job_uuid = ''job-a'', page_number = PInt 1,
                   content = PDict [(PStr ''TEXT'', PStr ''Hello'')],
                   metadata_col = PDict [] \<rparr>]"
    by (simp add: run_defs sample_defs Let_def poll_status.simps)
  with p have rows: "page_rows w'
              = [\<lparr> uuid = ''uuid-0'', extraction_job_uuid = ''job-a'', page_number = PInt 1,
                   content = PDict [(PStr ''TEXT'', PStr ''Hello'')],
                   metadata_col = PDict [] \<rparr>]" by simp
  have f: "page_rows fresh_world = []" by (simp add: fresh_world_def)
  from stored_rows_hold_content_only[OF p]
  have m: "list_all (\<lambda>row. metadata_col row = PDict []) (page_rows w')"
  proof (elim exE conjE, goal_cases)
    case (1 local w1 w2 rd d w3 new)
    from 1(4) f have "page_rows w' = new" by simp
    moreover from 1(7) have "list_all (\<lambda>row. metadata_col row = PDict []) new"
      by (simp add: list_all_iff)
    ultimately show ?case by simp
  qed
  from a p rows m show ?thesis by (intro conjI exI[of _ w'])
qed

section \<open>Webhook readers\<close>

text \<open>
  C2 does not hold of the code: for a reader that supports webhooks the executor sets
  \<open>page_contents\<close> to \<open>None\<close> and goes on to the validator, which rejects it. The job is
  not polled, but it is set to FAILURE and retried.
\<close>

theorem webhook_job_is_marked_failed:
  "supports_webhook (sample_behaviour LlamaParseExtractor)
   \<and> get_reader (init sample_env) ''LlamaParse'' = Inr LlamaParseExtractor
   \<and> map_option fst (process_document_with_extractor sample_constants sample_env
                       (sample_request ''LlamaParse'') fresh_world)
       = Some (Retry (Exn RuntimeError ''No meaningful content extracted by LlamaParse'')
                 (sample_request ''LlamaParse'') 60 1)
   \<and> map_option (status_log \<circ> snd)
        (process_document_with_extractor sample_constants sample_env
           (sample_request ''LlamaParse'') fresh_world) = Some [PROCESSING, FAILURE]
   \<and> map_option (status \<circ> job \<circ> snd)
        (process_document_with_extractor sample_constants sample_env
           (sample_request ''LlamaParse'') fresh_world) = Some FAILURE
   \<and> map_option (calls \<circ> snd)
        (process_document_with_extractor sample_constants sample_env
           (sample_request ''LlamaParse'') fresh_world)
       = Some [CallRead ''/data/doc.pdf'', CallMarkTaskFailed]"
  by (simp add: run_defs sample_defs Let_def)

section \<open>What \<open>read\<close> returns\<close>

text \<open>
  C5 does not hold of the code: \<open>PyPDF2Extractor.read\<close> and \<open>PyMuPDFExtractor.read\<close> store
  the page map and return \<open>True\<close>, so the executor asks for the status and the result;
  \<open>TesseractExtractor.read\<close> returns the page map itself and the executor uses it at once.
\<close>

theorem pypdf2_read_returns_true:
  "fst (PyPDF2Extractor_read hello_pdf PNone) = Inr (PBool True)
   \<and> fst (PyMuPDFExtractor_read hello_pdf PNone) = Inr (PBool True)
   \<and> fst (TesseractExtractor_read (Inr ['' Hello '']) PNone)
       = Inr (PDict [(PInt 1, PDict [(PStr ''content'', PDict [(PStr ''TEXT'', PStr ''Hello'')]),
                                     (PStr ''metadata'',
                                        PDict [(PStr ''extractor'', PStr ''Tesseract''),
                                               (PStr ''page_number'', PInt 1)])])])
   \<and> map_option (calls \<circ> snd)
        (process_document_with_extractor sample_constants sample_env
           (sample_request ''PyPDF2'') fresh_world)
       = Some [CallRead ''/data/doc.pdf'', CallGetStatus, CallGetResult, CallMarkTaskComplete]
   \<and> map_option (calls \<circ> snd)
        (process_document_with_extractor sample_constants sample_env
           (sample_request ''Tesseract'') fresh_world)
       = Some [CallRead ''/data/doc.pdf'', CallMarkTaskComplete]"
  by (simp add: run_defs sample_defs Let_def poll_status.simps)

end
